theory Spec2Isabelle
  imports Main "HOL-Library.Word"
begin

unbundle bit_operations_syntax

section \<open>Data model of the virtual peripherals\<close>

text \<open>
  The simulation keeps its state in file-level static variables of \<^verbatim>\<open>sim_gpio.c\<close> and
  \<^verbatim>\<open>sim_nvic.c\<close>.  The embedding collects them in one record, because an interrupt
  handler is arbitrary C code that may call into either module.  Every \<^verbatim>\<open>uint8_t\<close> is an
  \<open>8 word\<close>, and a C truth test \<^verbatim>\<open>if (x)\<close> is \<open>x \<noteq> 0\<close>.  A function pointer is
  \<open>nat option\<close>: \<open>None\<close> is \<^verbatim>\<open>NULL\<close>, \<open>Some h\<close> is the address of handler \<open>h\<close>, whose code
  is looked up in a handler table passed to the functions that call through pointers.
  Console output and the diagnostic name strings (\<^verbatim>\<open>name\<close> of a port and of an IRQ line)
  are not modelled: no control flow reads them.
\<close>

type_synonym u8 = "8 word"
type_synonym u32 = "32 word"

definition MAX_GPIO_PORTS :: nat where "MAX_GPIO_PORTS = 9"
definition MAX_GPIO_PINS :: nat where "MAX_GPIO_PINS = 16"

definition GPIO_MODE_INPUT :: u8 where "GPIO_MODE_INPUT = 0"
definition GPIO_MODE_OUTPUT :: u8 where "GPIO_MODE_OUTPUT = 1"
definition GPIO_MODE_ALTERNATE :: u8 where "GPIO_MODE_ALTERNATE = 2"
definition GPIO_MODE_ANALOG :: u8 where "GPIO_MODE_ANALOG = 3"
definition GPIO_MODE_IT_RISING :: u8 where "GPIO_MODE_IT_RISING = 4"
definition GPIO_MODE_IT_FALLING :: u8 where "GPIO_MODE_IT_FALLING = 5"
definition GPIO_MODE_IT_BOTH :: u8 where "GPIO_MODE_IT_BOTH = 6"

definition GPIO_OTYPE_PP :: u8 where "GPIO_OTYPE_PP = 0"
definition GPIO_OTYPE_OD :: u8 where "GPIO_OTYPE_OD = 1"
definition GPIO_SPEED_LOW :: u8 where "GPIO_SPEED_LOW = 0"
definition GPIO_SPEED_MEDIUM :: u8 where "GPIO_SPEED_MEDIUM = 1"
definition GPIO_SPEED_FAST :: u8 where "GPIO_SPEED_FAST = 2"
definition GPIO_SPEED_HIGH :: u8 where "GPIO_SPEED_HIGH = 3"
definition GPIO_PUPD_NONE :: u8 where "GPIO_PUPD_NONE = 0"
definition GPIO_PUPD_UP :: u8 where "GPIO_PUPD_UP = 1"
definition GPIO_PUPD_DOWN :: u8 where "GPIO_PUPD_DOWN = 2"

definition GPIO_ERROR_NONE :: u8 where "GPIO_ERROR_NONE = 0"
definition GPIO_ERROR_INVALID_PORT :: u8 where "GPIO_ERROR_INVALID_PORT = 1"
definition GPIO_ERROR_INVALID_PIN :: u8 where "GPIO_ERROR_INVALID_PIN = 2"
definition GPIO_ERROR_CONFIG :: u8 where "GPIO_ERROR_CONFIG = 3"
definition GPIO_ERROR_INTERRUPT :: u8 where "GPIO_ERROR_INTERRUPT = 4"
definition GPIO_ERROR_PINMUX :: u8 where "GPIO_ERROR_PINMUX = 5"

definition MAX_IRQ_LINES :: nat where "MAX_IRQ_LINES = 240"
definition MAX_PRIORITY :: u8 where "MAX_PRIORITY = 15"

definition NVIC_ERROR_NONE :: u8 where "NVIC_ERROR_NONE = 0"
definition NVIC_ERROR_INVALID_IRQ :: u8 where "NVIC_ERROR_INVALID_IRQ = 1"
definition NVIC_ERROR_PRIORITY :: u8 where "NVIC_ERROR_PRIORITY = 2"

record VirtualGPIOPin =
  mode :: u8
  output_type :: u8
  speed :: u8
  pupd :: u8
  alt_function :: u8
  pin_value :: u8
  irq_enabled :: u8
  irq_handler :: "nat option"

record VirtualGPIOPort =
  pins :: "VirtualGPIOPin list"
  clock_enabled :: u8

record VirtualIRQ =
  enabled :: u8
  pending :: u8
  active :: u8
  priority :: u8
  handler :: "nat option"

text \<open>
  \<open>rand_src\<close> and \<open>rand_calls\<close> stand for the C library generator: the \<open>k\<close>-th call of
  \<^verbatim>\<open>rand()\<close> in the run returns \<open>rand_src k\<close>.  The sequence is whatever the seeding
  produces, so \<^verbatim>\<open>srand(time(NULL))\<close> has no separate effect in the model.
\<close>

record sim_state =
  gpio_ports :: "VirtualGPIOPort list"
  gpio_initialized :: u8
  gpio_error_injection_enabled :: u8
  gpio_last_error :: u8
  irq_lines :: "VirtualIRQ list"
  nvic_initialized :: u8
  global_irq_enabled :: u8
  nvic_error_injection_enabled :: u8
  nvic_last_error :: u8
  rand_src :: "nat \<Rightarrow> nat"
  rand_calls :: nat

type_synonym gpio_handlers = "nat \<Rightarrow> u8 \<Rightarrow> u8 \<Rightarrow> sim_state \<Rightarrow> sim_state"
type_synonym nvic_handlers = "nat \<Rightarrow> sim_state \<Rightarrow> sim_state"

definition rand_c :: "sim_state \<Rightarrow> nat \<times> sim_state" where
  "rand_c s = (rand_src s (rand_calls s), s\<lparr>rand_calls := rand_calls s + 1\<rparr>)"

text \<open>The contents of the static variables when the program starts (C zero initialisation,
  except \<^verbatim>\<open>global_irq_enabled = 1\<close>).\<close>

definition zero_pin :: VirtualGPIOPin where
  "zero_pin = \<lparr>mode = 0, output_type = 0, speed = 0, pupd = 0, alt_function = 0,
     pin_value = 0, irq_enabled = 0, irq_handler = None\<rparr>"

definition zero_irq :: VirtualIRQ where
  "zero_irq = \<lparr>enabled = 0, pending = 0, active = 0, priority = 0, handler = None\<rparr>"

definition boot_state :: "(nat \<Rightarrow> nat) \<Rightarrow> sim_state" where
  "boot_state r = \<lparr>gpio_ports = replicate MAX_GPIO_PORTS
        \<lparr>pins = replicate MAX_GPIO_PINS zero_pin, clock_enabled = 0\<rparr>,
     gpio_initialized = 0, gpio_error_injection_enabled = 0, gpio_last_error = GPIO_ERROR_NONE,
     irq_lines = replicate MAX_IRQ_LINES zero_irq,
     nvic_initialized = 0, global_irq_enabled = 1, nvic_error_injection_enabled = 0,
     nvic_last_error = NVIC_ERROR_NONE, rand_src = r, rand_calls = 0\<rparr>"

section \<open>The virtual GPIO driver (\<^verbatim>\<open>sim_gpio.c\<close>)\<close>

definition init_pin :: VirtualGPIOPin where
  "init_pin = \<lparr>mode = GPIO_MODE_INPUT, output_type = GPIO_OTYPE_PP, speed = GPIO_SPEED_LOW,
     pupd = GPIO_PUPD_NONE, alt_function = 0, pin_value = 0, irq_enabled = 0,
     irq_handler = None\<rparr>"

definition VirtualGPIO_Init :: "sim_state \<Rightarrow> sim_state" where
  "VirtualGPIO_Init s =
     (if gpio_initialized s \<noteq> 0 then s
      else s\<lparr>gpio_ports := replicate MAX_GPIO_PORTS
                \<lparr>pins = replicate MAX_GPIO_PINS init_pin, clock_enabled = 0\<rparr>,
             gpio_initialized := 1\<rparr>)"

text \<open>The first statement of every entry point:
  \<^verbatim>\<open>if (!gpio_initialized) VirtualGPIO_Init();\<close>\<close>

definition gpio_lazy_init :: "sim_state \<Rightarrow> sim_state" where
  "gpio_lazy_init s = (if gpio_initialized s = 0 then VirtualGPIO_Init s else s)"

text \<open>\<^verbatim>\<open>gpio_ports[port].pins[pin]\<close>, read and updated in place.\<close>

definition pin_at :: "sim_state \<Rightarrow> u8 \<Rightarrow> u8 \<Rightarrow> VirtualGPIOPin" where
  "pin_at s port pin = pins (gpio_ports s ! unat port) ! unat pin"

definition pin_update :: "u8 \<Rightarrow> u8 \<Rightarrow> (VirtualGPIOPin \<Rightarrow> VirtualGPIOPin) \<Rightarrow> sim_state \<Rightarrow> sim_state" where
  "pin_update port pin f s =
     s\<lparr>gpio_ports := (gpio_ports s)[unat port :=
         (gpio_ports s ! unat port)\<lparr>pins :=
            (pins (gpio_ports s ! unat port))[unat pin := f (pin_at s port pin)]\<rparr>]\<rparr>"

definition VirtualGPIO_SetErrorInjection :: "u8 \<Rightarrow> sim_state \<Rightarrow> sim_state" where
  "VirtualGPIO_SetErrorInjection enable s = s\<lparr>gpio_error_injection_enabled := enable\<rparr>"

definition VirtualGPIO_GetLastError :: "sim_state \<Rightarrow> u8" where
  "VirtualGPIO_GetLastError s = gpio_last_error s"

definition gpio_inject_error :: "sim_state \<Rightarrow> u8 \<times> sim_state" where
  "gpio_inject_error s =
     (if gpio_error_injection_enabled s = 0 then (0, s)
      else (case rand_c s of (r1, s1) \<Rightarrow>
        if r1 mod 10 = 0 then
          (case rand_c s1 of (r2, s2) \<Rightarrow>
             (1, s2\<lparr>gpio_last_error := of_nat (r2 mod 5) + 1\<rparr>))
        else (0, s1)))"

definition VirtualGPIO_EnableClock :: "u8 \<Rightarrow> sim_state \<Rightarrow> u8 \<times> sim_state" where
  "VirtualGPIO_EnableClock port s0 =
     (let s = gpio_lazy_init s0 in
      if unat port \<ge> MAX_GPIO_PORTS then (0, s\<lparr>gpio_last_error := GPIO_ERROR_INVALID_PORT\<rparr>)
      else (case gpio_inject_error s of (e, s1) \<Rightarrow>
        if e \<noteq> 0 then (0, s1)
        else (1, s1\<lparr>gpio_ports := (gpio_ports s1)[unat port :=
                       (gpio_ports s1 ! unat port)\<lparr>clock_enabled := 1\<rparr>]\<rparr>)))"

definition VirtualGPIO_ConfigurePin ::
    "u8 \<Rightarrow> u8 \<Rightarrow> u8 \<Rightarrow> u8 \<Rightarrow> u8 \<Rightarrow> u8 \<Rightarrow> sim_state \<Rightarrow> u8 \<times> sim_state" where
  "VirtualGPIO_ConfigurePin port pin md otype spd pd s0 =
     (let s = gpio_lazy_init s0 in
      if unat port \<ge> MAX_GPIO_PORTS then (0, s\<lparr>gpio_last_error := GPIO_ERROR_INVALID_PORT\<rparr>)
      else if unat pin \<ge> MAX_GPIO_PINS then (0, s\<lparr>gpio_last_error := GPIO_ERROR_INVALID_PIN\<rparr>)
      else if clock_enabled (gpio_ports s ! unat port) = 0
        then (0, s\<lparr>gpio_last_error := GPIO_ERROR_CONFIG\<rparr>)
      else (case gpio_inject_error s of (e, s1) \<Rightarrow>
        if e \<noteq> 0 then (0, s1)
        else (1, (pin_update port pin
                    (\<lambda>p. p\<lparr>mode := md, output_type := otype, speed := spd, pupd := pd\<rparr>) s1)
                 \<lparr>gpio_last_error := GPIO_ERROR_NONE\<rparr>)))"

text \<open>The warning branch of \<^verbatim>\<open>VirtualGPIO_SetAltFunction\<close> stores \<^verbatim>\<open>GPIO_ERROR_PINMUX\<close>
  and the function then overwrites it with \<^verbatim>\<open>GPIO_ERROR_NONE\<close>; both writes are kept.\<close>

definition VirtualGPIO_SetAltFunction :: "u8 \<Rightarrow> u8 \<Rightarrow> u8 \<Rightarrow> sim_state \<Rightarrow> u8 \<times> sim_state" where
  "VirtualGPIO_SetAltFunction port pin alt_func s0 =
     (let s = gpio_lazy_init s0 in
      if unat port \<ge> MAX_GPIO_PORTS \<or> unat pin \<ge> MAX_GPIO_PINS
        then (0, s\<lparr>gpio_last_error := GPIO_ERROR_PINMUX\<rparr>)
      else (case gpio_inject_error s of (e, s1) \<Rightarrow>
        if e \<noteq> 0 then (0, s1)
        else
          (let s2 = (if mode (pin_at s1 port pin) \<noteq> GPIO_MODE_ALTERNATE
                     then s1\<lparr>gpio_last_error := GPIO_ERROR_PINMUX\<rparr> else s1)
           in (1, (pin_update port pin (\<lambda>p. p\<lparr>alt_function := alt_func\<rparr>) s2)
                  \<lparr>gpio_last_error := GPIO_ERROR_NONE\<rparr>))))"

definition VirtualGPIO_WritePin :: "u8 \<Rightarrow> u8 \<Rightarrow> u8 \<Rightarrow> sim_state \<Rightarrow> u8 \<times> sim_state" where
  "VirtualGPIO_WritePin port pin v s0 =
     (let s = gpio_lazy_init s0 in
      if unat port \<ge> MAX_GPIO_PORTS \<or> unat pin \<ge> MAX_GPIO_PINS
        then (0, s\<lparr>gpio_last_error := GPIO_ERROR_INVALID_PORT\<rparr>)
      else (case gpio_inject_error s of (e, s1) \<Rightarrow>
        if e \<noteq> 0 then (0, s1)
        else (1, (pin_update port pin (\<lambda>p. p\<lparr>pin_value := (if v \<noteq> 0 then 1 else 0)\<rparr>) s1)
                 \<lparr>gpio_last_error := GPIO_ERROR_NONE\<rparr>)))"

text \<open>\<^verbatim>\<open>VirtualGPIO_ReadPin\<close> writes its result through the pointer \<^verbatim>\<open>value\<close>; the second
  component is what it stored there (\<open>None\<close> when the caller's variable is left alone).\<close>

definition VirtualGPIO_ReadPin :: "u8 \<Rightarrow> u8 \<Rightarrow> sim_state \<Rightarrow> u8 \<times> u8 option \<times> sim_state" where
  "VirtualGPIO_ReadPin port pin s0 =
     (let s = gpio_lazy_init s0 in
      if unat port \<ge> MAX_GPIO_PORTS \<or> unat pin \<ge> MAX_GPIO_PINS
        then (0, None, s\<lparr>gpio_last_error := GPIO_ERROR_INVALID_PIN\<rparr>)
      else (case gpio_inject_error s of (e, s1) \<Rightarrow>
        if e \<noteq> 0 then (0, None, s1)
        else if mode (pin_at s1 port pin) = GPIO_MODE_INPUT then
          (case (if pupd (pin_at s1 port pin) = GPIO_PUPD_UP then (1, s1)
                 else if pupd (pin_at s1 port pin) = GPIO_PUPD_DOWN then (0, s1)
                 else (case rand_c s1 of (r, s2) \<Rightarrow> (of_nat (r mod 2), s2)))
           of (v, s3) \<Rightarrow>
             (1, Some v, (pin_update port pin (\<lambda>p. p\<lparr>pin_value := v\<rparr>) s3)
                         \<lparr>gpio_last_error := GPIO_ERROR_NONE\<rparr>))
        else (1, Some (pin_value (pin_at s1 port pin)),
              s1\<lparr>gpio_last_error := GPIO_ERROR_NONE\<rparr>)))"

definition VirtualGPIO_TogglePin :: "u8 \<Rightarrow> u8 \<Rightarrow> sim_state \<Rightarrow> u8 \<times> sim_state" where
  "VirtualGPIO_TogglePin port pin s0 =
     (let s = gpio_lazy_init s0 in
      if unat port \<ge> MAX_GPIO_PORTS \<or> unat pin \<ge> MAX_GPIO_PINS
        then (0, s\<lparr>gpio_last_error := GPIO_ERROR_INVALID_PIN\<rparr>)
      else (1, (pin_update port pin
                  (\<lambda>p. p\<lparr>pin_value := (if pin_value p = 0 then 1 else 0)\<rparr>) s)
               \<lparr>gpio_last_error := GPIO_ERROR_NONE\<rparr>))"

definition VirtualGPIO_ConfigureInterrupt ::
    "u8 \<Rightarrow> u8 \<Rightarrow> u8 \<Rightarrow> nat option \<Rightarrow> sim_state \<Rightarrow> u8 \<times> sim_state" where
  "VirtualGPIO_ConfigureInterrupt port pin md h s0 =
     (let s = gpio_lazy_init s0 in
      if unat port \<ge> MAX_GPIO_PORTS \<or> unat pin \<ge> MAX_GPIO_PINS
        then (0, s\<lparr>gpio_last_error := GPIO_ERROR_INTERRUPT\<rparr>)
      else (case gpio_inject_error s of (e, s1) \<Rightarrow>
        if e \<noteq> 0 then (0, s1)
        else (1, (pin_update port pin
                    (\<lambda>p. p\<lparr>mode := md, irq_enabled := 1, irq_handler := h\<rparr>) s1)
                 \<lparr>gpio_last_error := GPIO_ERROR_NONE\<rparr>)))"

text \<open>\<^verbatim>\<open>VirtualGPIO_SimulateInterrupt\<close> calls through the pin's function pointer; \<open>hs\<close> is
  the table of handler code.\<close>

definition VirtualGPIO_SimulateInterrupt ::
    "gpio_handlers \<Rightarrow> u8 \<Rightarrow> u8 \<Rightarrow> u8 \<Rightarrow> sim_state \<Rightarrow> sim_state" where
  "VirtualGPIO_SimulateInterrupt hs port pin edge s0 =
     (let s = gpio_lazy_init s0 in
      if unat port \<ge> MAX_GPIO_PORTS \<or> unat pin \<ge> MAX_GPIO_PINS then s
      else if irq_enabled (pin_at s port pin) = 0 then s
      else
        (let should_trigger =
               ((mode (pin_at s port pin) = GPIO_MODE_IT_RISING \<and> edge = 1) \<or>
                (mode (pin_at s port pin) = GPIO_MODE_IT_FALLING \<and> edge = 0) \<or>
                mode (pin_at s port pin) = GPIO_MODE_IT_BOTH)
         in if should_trigger then
              (case irq_handler (pin_at s port pin) of
                 Some h \<Rightarrow> hs h port pin s
               | None \<Rightarrow> s)
            else s))"

section \<open>The virtual interrupt controller (\<^verbatim>\<open>sim_nvic.c\<close>)\<close>

definition init_irq :: VirtualIRQ where
  "init_irq = \<lparr>enabled = 0, pending = 0, active = 0, priority = MAX_PRIORITY, handler = None\<rparr>"

definition VirtualNVIC_Init :: "sim_state \<Rightarrow> sim_state" where
  "VirtualNVIC_Init s =
     (if nvic_initialized s \<noteq> 0 then s
      else s\<lparr>irq_lines := replicate MAX_IRQ_LINES init_irq,
             nvic_initialized := 1, global_irq_enabled := 1\<rparr>)"

text \<open>The first statement of every entry point:
  \<^verbatim>\<open>if (!nvic_initialized) VirtualNVIC_Init();\<close>\<close>

definition nvic_lazy_init :: "sim_state \<Rightarrow> sim_state" where
  "nvic_lazy_init s = (if nvic_initialized s = 0 then VirtualNVIC_Init s else s)"

definition VirtualNVIC_SetErrorInjection :: "u8 \<Rightarrow> sim_state \<Rightarrow> sim_state" where
  "VirtualNVIC_SetErrorInjection enable s = s\<lparr>nvic_error_injection_enabled := enable\<rparr>"

definition VirtualNVIC_GetLastError :: "sim_state \<Rightarrow> u8" where
  "VirtualNVIC_GetLastError s = nvic_last_error s"

definition nvic_inject_error :: "sim_state \<Rightarrow> u8 \<times> sim_state" where
  "nvic_inject_error s =
     (if nvic_error_injection_enabled s = 0 then (0, s)
      else (case rand_c s of (r1, s1) \<Rightarrow>
        if r1 mod 10 = 0 then
          (case rand_c s1 of (r2, s2) \<Rightarrow>
             (1, s2\<lparr>nvic_last_error := of_nat (r2 mod 2) + 1\<rparr>))
        else (0, s1)))"

text \<open>\<^verbatim>\<open>irq_lines[n]\<close> updated in place.\<close>

definition irq_update :: "nat \<Rightarrow> (VirtualIRQ \<Rightarrow> VirtualIRQ) \<Rightarrow> sim_state \<Rightarrow> sim_state" where
  "irq_update n f s = s\<lparr>irq_lines := (irq_lines s)[n := f (irq_lines s ! n)]\<rparr>"

definition VirtualNVIC_EnableIRQ :: "u8 \<Rightarrow> sim_state \<Rightarrow> u8 \<times> sim_state" where
  "VirtualNVIC_EnableIRQ irq_num s0 =
     (let s = nvic_lazy_init s0 in
      if unat irq_num \<ge> MAX_IRQ_LINES then (0, s\<lparr>nvic_last_error := NVIC_ERROR_INVALID_IRQ\<rparr>)
      else (case nvic_inject_error s of (e, s1) \<Rightarrow>
        if e \<noteq> 0 then (0, s1)
        else (1, (irq_update (unat irq_num) (\<lambda>l. l\<lparr>enabled := 1\<rparr>) s1)
                   \<lparr>nvic_last_error := NVIC_ERROR_NONE\<rparr>)))"

definition VirtualNVIC_DisableIRQ :: "u8 \<Rightarrow> sim_state \<Rightarrow> u8 \<times> sim_state" where
  "VirtualNVIC_DisableIRQ irq_num s0 =
     (let s = nvic_lazy_init s0 in
      if unat irq_num \<ge> MAX_IRQ_LINES then (0, s\<lparr>nvic_last_error := NVIC_ERROR_INVALID_IRQ\<rparr>)
      else (1, (irq_update (unat irq_num) (\<lambda>l. l\<lparr>enabled := 0\<rparr>) s)
                \<lparr>nvic_last_error := NVIC_ERROR_NONE\<rparr>))"

definition VirtualNVIC_SetPriority :: "u8 \<Rightarrow> u8 \<Rightarrow> sim_state \<Rightarrow> u8 \<times> sim_state" where
  "VirtualNVIC_SetPriority irq_num prio s0 =
     (let s = nvic_lazy_init s0 in
      if unat irq_num \<ge> MAX_IRQ_LINES then (0, s\<lparr>nvic_last_error := NVIC_ERROR_INVALID_IRQ\<rparr>)
      else if prio > MAX_PRIORITY then (0, s\<lparr>nvic_last_error := NVIC_ERROR_PRIORITY\<rparr>)
      else (case nvic_inject_error s of (e, s1) \<Rightarrow>
        if e \<noteq> 0 then (0, s1)
        else (1, (irq_update (unat irq_num) (\<lambda>l. l\<lparr>priority := prio\<rparr>) s1)
                   \<lparr>nvic_last_error := NVIC_ERROR_NONE\<rparr>)))"

definition VirtualNVIC_GetPriority :: "u8 \<Rightarrow> sim_state \<Rightarrow> u8 \<times> sim_state" where
  "VirtualNVIC_GetPriority irq_num s0 =
     (let s = nvic_lazy_init s0 in
      if unat irq_num \<ge> MAX_IRQ_LINES then (MAX_PRIORITY, s)
      else (priority (irq_lines s ! unat irq_num), s))"

definition VirtualNVIC_SetHandler :: "u8 \<Rightarrow> nat option \<Rightarrow> sim_state \<Rightarrow> u8 \<times> sim_state" where
  "VirtualNVIC_SetHandler irq_num h s0 =
     (let s = nvic_lazy_init s0 in
      if unat irq_num \<ge> MAX_IRQ_LINES then (0, s\<lparr>nvic_last_error := NVIC_ERROR_INVALID_IRQ\<rparr>)
      else (1, (irq_update (unat irq_num) (\<lambda>l. l\<lparr>handler := h\<rparr>) s)
                \<lparr>nvic_last_error := NVIC_ERROR_NONE\<rparr>))"

definition VirtualNVIC_SetPending :: "u8 \<Rightarrow> sim_state \<Rightarrow> u8 \<times> sim_state" where
  "VirtualNVIC_SetPending irq_num s0 =
     (let s = nvic_lazy_init s0 in
      if unat irq_num \<ge> MAX_IRQ_LINES then (0, s\<lparr>nvic_last_error := NVIC_ERROR_INVALID_IRQ\<rparr>)
      else (case nvic_inject_error s of (e, s1) \<Rightarrow>
        if e \<noteq> 0 then (0, s1)
        else (1, (irq_update (unat irq_num) (\<lambda>l. l\<lparr>pending := 1\<rparr>) s1)
                   \<lparr>nvic_last_error := NVIC_ERROR_NONE\<rparr>)))"

definition VirtualNVIC_ClearPending :: "u8 \<Rightarrow> sim_state \<Rightarrow> u8 \<times> sim_state" where
  "VirtualNVIC_ClearPending irq_num s0 =
     (let s = nvic_lazy_init s0 in
      if unat irq_num \<ge> MAX_IRQ_LINES then (0, s\<lparr>nvic_last_error := NVIC_ERROR_INVALID_IRQ\<rparr>)
      else (1, (irq_update (unat irq_num) (\<lambda>l. l\<lparr>pending := 0\<rparr>) s)
                \<lparr>nvic_last_error := NVIC_ERROR_NONE\<rparr>))"

definition VirtualNVIC_IsPending :: "u8 \<Rightarrow> sim_state \<Rightarrow> u8 \<times> sim_state" where
  "VirtualNVIC_IsPending irq_num s0 =
     (let s = nvic_lazy_init s0 in
      if unat irq_num \<ge> MAX_IRQ_LINES then (0, s)
      else (pending (irq_lines s ! unat irq_num), s))"

definition VirtualNVIC_EnableGlobalIRQ :: "sim_state \<Rightarrow> sim_state" where
  "VirtualNVIC_EnableGlobalIRQ s = s\<lparr>global_irq_enabled := 1\<rparr>"

definition VirtualNVIC_DisableGlobalIRQ :: "sim_state \<Rightarrow> sim_state" where
  "VirtualNVIC_DisableGlobalIRQ s = s\<lparr>global_irq_enabled := 0\<rparr>"

text \<open>The test of the scan, \<^verbatim>\<open>enabled && pending && !active\<close>.\<close>

definition irq_eligible :: "VirtualIRQ \<Rightarrow> bool" where
  "irq_eligible l \<longleftrightarrow> enabled l \<noteq> 0 \<and> pending l \<noteq> 0 \<and> \<not> (active l \<noteq> 0)"

text \<open>One iteration of the \<^verbatim>\<open>for\<close> loop of \<^verbatim>\<open>find_highest_priority_pending\<close>, on the
  loop variables \<^verbatim>\<open>(highest_irq, highest_priority)\<close>.\<close>

definition find_step :: "VirtualIRQ list \<Rightarrow> nat \<Rightarrow> int \<times> u8 \<Rightarrow> int \<times> u8" where
  "find_step ls i acc =
     (case acc of (highest_irq, highest_priority) \<Rightarrow>
        if irq_eligible (ls ! i) then
          (if priority (ls ! i) < highest_priority then (int i, priority (ls ! i)) else acc)
        else acc)"

definition find_highest_priority_pending :: "sim_state \<Rightarrow> int" where
  "find_highest_priority_pending s =
     fst (fold (find_step (irq_lines s)) [0..<MAX_IRQ_LINES] (-1, MAX_PRIORITY + 1))"

definition VirtualNVIC_ProcessInterrupts :: "nvic_handlers \<Rightarrow> sim_state \<Rightarrow> sim_state" where
  "VirtualNVIC_ProcessInterrupts hs s0 =
     (let s = nvic_lazy_init s0 in
      if global_irq_enabled s = 0 then s
      else
        (let irq_num = find_highest_priority_pending s in
         if irq_num \<ge> 0 then
           (let s1 = irq_update (nat irq_num) (\<lambda>l. l\<lparr>pending := 0, active := 1\<rparr>) s;
                s2 = (case handler (irq_lines s1 ! nat irq_num) of
                        Some h \<Rightarrow> hs h s1
                      | None \<Rightarrow> s1)
            in irq_update (nat irq_num) (\<lambda>l. l\<lparr>active := 0\<rparr>) s2)
         else s))"

text \<open>The \<^verbatim>\<open>while\<close> loop of \<^verbatim>\<open>VirtualNVIC_ProcessAllPending\<close> on the state and the counter
  \<^verbatim>\<open>processed\<close>; the counter is returned because the function prints it.\<close>

function ProcessAllPending_loop :: "nvic_handlers \<Rightarrow> sim_state \<Rightarrow> int \<Rightarrow> sim_state \<times> int" where
  "ProcessAllPending_loop hs s processed =
     (if find_highest_priority_pending s \<ge> 0 then
        (let s' = VirtualNVIC_ProcessInterrupts hs s;
             processed' = processed + 1
         in if processed' > 100 then (s', processed')
            else ProcessAllPending_loop hs s' processed')
      else (s, processed))"
  by pat_completeness auto
termination
  by (relation "measure (\<lambda>(hs, s, processed). nat (101 - processed))") auto

declare ProcessAllPending_loop.simps [simp del]

definition VirtualNVIC_ProcessAllPending :: "nvic_handlers \<Rightarrow> sim_state \<Rightarrow> sim_state \<times> int" where
  "VirtualNVIC_ProcessAllPending hs s0 = ProcessAllPending_loop hs (nvic_lazy_init s0) 0"

section \<open>The HAL adapter (\<^verbatim>\<open>sim_hal_wrapper.c\<close>)\<close>

text \<open>The arguments are \<^verbatim>\<open>uint32_t\<close>; the combined value is converted to \<^verbatim>\<open>uint8_t\<close> when it
  is stored in \<^verbatim>\<open>priority\<close>, which keeps its low eight bits.\<close>

definition HAL_NVIC_SetPriority :: "u8 \<Rightarrow> u32 \<Rightarrow> u32 \<Rightarrow> sim_state \<Rightarrow> sim_state" where
  "HAL_NVIC_SetPriority irq_num preempt_priority sub_priority s =
     (let prio0 = (ucast (push_bit 2 preempt_priority OR (sub_priority AND 3)) :: u8);
          prio = (if prio0 > 15 then 15 else prio0)
      in snd (VirtualNVIC_SetPriority irq_num prio s))"

section \<open>Invariants and test fixtures\<close>

text \<open>The loop invariant of the scan after \<open>k\<close> lines: either nothing was selected yet, or
  the selected line is the most urgent eligible one among the first \<open>k\<close>, the lowest-numbered
  such line.\<close>

definition find_inv :: "VirtualIRQ list \<Rightarrow> nat \<Rightarrow> int \<times> u8 \<Rightarrow> bool" where
  "find_inv ls k acc \<longleftrightarrow>
     (case acc of (hi, hp) \<Rightarrow>
        (hi = -1 \<and> hp = 16 \<and> (\<forall>j<k. irq_eligible (ls ! j) \<longrightarrow> \<not> priority (ls ! j) < 16))
      \<or> (0 \<le> hi \<and> nat hi < k \<and> irq_eligible (ls ! nat hi) \<and> hp = priority (ls ! nat hi)
          \<and> hp < 16
          \<and> (\<forall>j<k. irq_eligible (ls ! j) \<longrightarrow>
                hp < priority (ls ! j) \<or> (hp = priority (ls ! j) \<and> nat hi \<le> j))))"

text \<open>What holds of the line table in every state the API can produce: it has 240 lines, every
  priority is at most 15 (\<^verbatim>\<open>VirtualNVIC_Init\<close> stores 15, \<^verbatim>\<open>VirtualNVIC_SetPriority\<close>
  rejects larger values), and before initialisation no line is enabled or pending.\<close>

definition nvic_inv :: "sim_state \<Rightarrow> bool" where
  "nvic_inv s \<longleftrightarrow>
     length (irq_lines s) = MAX_IRQ_LINES \<and>
     (\<forall>i<MAX_IRQ_LINES. priority (irq_lines s ! i) \<le> MAX_PRIORITY) \<and>
     (nvic_initialized s = 0 \<longrightarrow> (\<forall>i<MAX_IRQ_LINES. \<not> irq_eligible (irq_lines s ! i)))"

text \<open>The configuration of the test in \<^verbatim>\<open>sim_nvic.c\<close>: line 6 at priority 2 and line 23 at
  priority 1, both enabled and pending.  Handler 0 marks line 6 pending again.\<close>

definition nvic_test_handlers :: nvic_handlers where
  "nvic_test_handlers h s = (if h = 0 then snd (VirtualNVIC_SetPending 6 s) else s)"

definition nvic_test_state :: sim_state where
  "nvic_test_state =
     (snd (VirtualNVIC_SetPending 23
      (snd (VirtualNVIC_SetPending 6
      (snd (VirtualNVIC_SetHandler 23 (Some 1)
      (snd (VirtualNVIC_SetPriority 23 1
      (snd (VirtualNVIC_EnableIRQ 23
      (snd (VirtualNVIC_SetHandler 6 (Some 0)
      (snd (VirtualNVIC_SetPriority 6 2
      (snd (VirtualNVIC_EnableIRQ 6
      (boot_state (\<lambda>k. 0))))))))))))))))))"

text \<open>A handler that calls \<^verbatim>\<open>rand()\<close> once and marks line 0 pending again, and the state
  in which line 0 is enabled and pending with that handler, after \<open>k\<close> calls of
  \<^verbatim>\<open>rand()\<close>.  The number of calls of \<^verbatim>\<open>rand()\<close> counts the runs of the handler.\<close>

definition repend_handlers :: nvic_handlers where
  "repend_handlers h s = snd (VirtualNVIC_SetPending 0 (snd (rand_c s)))"

definition repend_state :: "nat \<Rightarrow> sim_state" where
  "repend_state k =
     (snd (VirtualNVIC_SetPending 0 (snd (VirtualNVIC_SetHandler 0 (Some 0)
        (snd (VirtualNVIC_EnableIRQ 0 (boot_state (\<lambda>k. 0))))))))\<lparr>rand_calls := k\<rparr>"

text \<open>The priority the adapter is said to pass on, in the words of the specification:
  \<open>(preempt << 2) | sub\<close>, clamped to 15.\<close>

definition claimed_priority :: "u32 \<Rightarrow> u32 \<Rightarrow> u8" where
  "claimed_priority preempt sub = of_nat (min 15 (unat (push_bit 2 preempt OR sub)))"

text \<open>What holds of the pin table in every state the API can produce: 9 ports of 16 pins,
  every \<^verbatim>\<open>value\<close> is 0 or 1 (every store writes \<^verbatim>\<open>value ? 1 : 0\<close>, a pull level,
  \<^verbatim>\<open>rand() % 2\<close> or a negation), and before initialisation the table is still zeroed.\<close>

definition gpio_inv :: "sim_state \<Rightarrow> bool" where
  "gpio_inv s \<longleftrightarrow>
     length (gpio_ports s) = MAX_GPIO_PORTS \<and>
     (\<forall>p<MAX_GPIO_PORTS. length (pins (gpio_ports s ! p)) = MAX_GPIO_PINS) \<and>
     (\<forall>p<MAX_GPIO_PORTS. \<forall>n<MAX_GPIO_PINS. pin_value (pins (gpio_ports s ! p) ! n) \<le> 1) \<and>
     (gpio_initialized s = 0 \<longrightarrow>
        (\<forall>p<MAX_GPIO_PORTS. clock_enabled (gpio_ports s ! p) = 0 \<and>
           (\<forall>n<MAX_GPIO_PINS. pins (gpio_ports s ! p) ! n = zero_pin)))"

text \<open>The edge argument of \<^verbatim>\<open>VirtualGPIO_SimulateInterrupt\<close> as the specification names it
  (the callers pass 1 for a rising and 0 for a falling edge), and the matching rule in the
  specification's words: Rising only on Rising, Falling only on Falling, Both on either.\<close>

datatype edge = Rising | Falling

fun edge_code :: "edge \<Rightarrow> u8" where
  "edge_code Rising = 1"
| "edge_code Falling = 0"

definition spec_trigger_matches :: "u8 \<Rightarrow> edge \<Rightarrow> bool" where
  "spec_trigger_matches t e \<longleftrightarrow>
     (t = GPIO_MODE_IT_RISING \<and> e = Rising) \<or> (t = GPIO_MODE_IT_FALLING \<and> e = Falling)
     \<or> t = GPIO_MODE_IT_BOTH"

text \<open>No interrupt is armed on a pin: the driver is not initialised yet, or the pin's
  \<^verbatim>\<open>irq_enabled\<close> flag is clear.\<close>

definition irq_unconfigured :: "sim_state \<Rightarrow> u8 \<Rightarrow> u8 \<Rightarrow> bool" where
  "irq_unconfigured s port pin \<longleftrightarrow>
     gpio_initialized s = 0 \<or> irq_enabled (pin_at s port pin) = 0"

text \<open>A call of the driver's API, and a program as a list of calls, run in order.\<close>

datatype gpio_call =
    Call_Init
  | Call_SetErrorInjection u8
  | Call_EnableClock u8
  | Call_ConfigurePin u8 u8 u8 u8 u8 u8
  | Call_SetAltFunction u8 u8 u8
  | Call_WritePin u8 u8 u8
  | Call_ReadPin u8 u8
  | Call_TogglePin u8 u8
  | Call_ConfigureInterrupt u8 u8 u8 "nat option"
  | Call_SimulateInterrupt u8 u8 u8

fun gpio_call_run :: "gpio_handlers \<Rightarrow> gpio_call \<Rightarrow> sim_state \<Rightarrow> sim_state" where
  "gpio_call_run hs Call_Init s = VirtualGPIO_Init s"
| "gpio_call_run hs (Call_SetErrorInjection en) s = VirtualGPIO_SetErrorInjection en s"
| "gpio_call_run hs (Call_EnableClock port) s = snd (VirtualGPIO_EnableClock port s)"
| "gpio_call_run hs (Call_ConfigurePin port pin md ot sp pd) s =
     snd (VirtualGPIO_ConfigurePin port pin md ot sp pd s)"
| "gpio_call_run hs (Call_SetAltFunction port pin af) s =
     snd (VirtualGPIO_SetAltFunction port pin af s)"
| "gpio_call_run hs (Call_WritePin port pin v) s = snd (VirtualGPIO_WritePin port pin v s)"
| "gpio_call_run hs (Call_ReadPin port pin) s = snd (snd (VirtualGPIO_ReadPin port pin s))"
| "gpio_call_run hs (Call_TogglePin port pin) s = snd (VirtualGPIO_TogglePin port pin s)"
| "gpio_call_run hs (Call_ConfigureInterrupt port pin md h) s =
     snd (VirtualGPIO_ConfigureInterrupt port pin md h s)"
| "gpio_call_run hs (Call_SimulateInterrupt port pin edge) s =
     VirtualGPIO_SimulateInterrupt hs port pin edge s"

fun configures_interrupt_on :: "u8 \<Rightarrow> u8 \<Rightarrow> gpio_call \<Rightarrow> bool" where
  "configures_interrupt_on port pin (Call_ConfigureInterrupt port' pin' md h) =
     (port' = port \<and> pin' = pin)"
| "configures_interrupt_on port pin c = False"

text \<open>The states of the tests in \<^verbatim>\<open>sim_gpio.c\<close>: PA5 configured as output and driven high,
  then PC13 armed for a falling edge; a handler that toggles the pin that fired; states with
  error injection switched on.\<close>

definition gpio_test_state :: sim_state where
  "gpio_test_state =
     snd (VirtualGPIO_WritePin 0 5 1
       (snd (VirtualGPIO_ConfigurePin 0 5 GPIO_MODE_OUTPUT GPIO_OTYPE_PP GPIO_SPEED_HIGH GPIO_PUPD_NONE
         (snd (VirtualGPIO_EnableClock 0 (boot_state (\<lambda>k. 0)))))))"

definition gpio_test_handlers :: gpio_handlers where
  "gpio_test_handlers h port pin s = snd (VirtualGPIO_TogglePin port pin s)"

definition gpio_irq_state :: sim_state where
  "gpio_irq_state =
     snd (VirtualGPIO_ConfigureInterrupt 2 13 GPIO_MODE_IT_FALLING (Some 0) gpio_test_state)"

definition gpio_fault_state :: "(nat \<Rightarrow> nat) \<Rightarrow> sim_state" where
  "gpio_fault_state r = VirtualGPIO_SetErrorInjection 1 (VirtualGPIO_Init (boot_state r))"

definition fault_state :: sim_state where
  "fault_state = VirtualNVIC_SetErrorInjection 1 (VirtualNVIC_Init (gpio_fault_state (\<lambda>k. 0)))"

text \<open>The interrupt controller before its first use, after one call that does not initialise
  it: \<^verbatim>\<open>VirtualNVIC_DisableGlobalIRQ()\<close>, respectively \<^verbatim>\<open>VirtualNVIC_SetErrorInjection(1)\<close>
  with a random source whose every roll rejects.\<close>

definition first_use_gate_closed :: sim_state where
  "first_use_gate_closed = VirtualNVIC_DisableGlobalIRQ (boot_state (\<lambda>k. 0))"

definition first_use_fault_state :: sim_state where
  "first_use_fault_state = VirtualNVIC_SetErrorInjection 1 (boot_state (\<lambda>k. 0))"

definition unconfigured_calls_example :: "gpio_call list" where
  "unconfigured_calls_example =
     [Call_EnableClock 2,
      Call_ConfigurePin 2 13 GPIO_MODE_IT_RISING GPIO_OTYPE_PP GPIO_SPEED_LOW GPIO_PUPD_UP,
      Call_ConfigureInterrupt 2 12 GPIO_MODE_IT_RISING (Some 0),
      Call_SimulateInterrupt 2 12 1]"

section \<open>The priority scan\<close>

lemma find_inv_0: "find_inv ls 0 (-1, 16)"
  by (simp add: find_inv_def)

lemma find_inv_step:
  assumes "find_inv ls k acc"
  shows "find_inv ls (Suc k) (find_step ls k acc)"
proof -
  obtain hi hp where acc: "acc = (hi, hp)" by (cases acc)
  from assms have inv: "find_inv ls k (hi, hp)" by (simp add: acc)
  show ?thesis
  proof (cases "irq_eligible (ls ! k) \<and> priority (ls ! k) < hp")
    case True
    then have st: "find_step ls k (hi, hp) = (int k, priority (ls ! k))"
      by (simp add: find_step_def)
    from inv True have lt: "priority (ls ! k) < 16"
      by (auto simp: find_inv_def)
    from inv True have "\<forall>j<k. irq_eligible (ls ! j) \<longrightarrow> priority (ls ! k) < priority (ls ! j)"
      by (auto simp: find_inv_def not_less)
    with True lt have "find_inv ls (Suc k) (int k, priority (ls ! k))"
      by (auto simp: find_inv_def less_Suc_eq)
    then show ?thesis by (simp add: acc st)
  next
    case False
    then have st: "find_step ls k (hi, hp) = (hi, hp)"
      by (auto simp add: find_step_def)
    from inv False have "find_inv ls (Suc k) (hi, hp)"
      by (auto simp: find_inv_def less_Suc_eq not_less)
    then show ?thesis by (simp add: acc st)
  qed
qed

lemma find_inv_fold: "find_inv ls k (fold (find_step ls) [0..<k] (-1, 16))"
proof (induction k)
  case 0
  show ?case by (simp add: find_inv_0)
next
  case (Suc k)
  then show ?case by (simp add: find_inv_step)
qed

lemma find_none:
  assumes "\<forall>i<MAX_IRQ_LINES. \<not> irq_eligible (irq_lines s ! i)"
  shows "find_highest_priority_pending s = -1"
proof -
  obtain hi hp where f: "fold (find_step (irq_lines s)) [0..<MAX_IRQ_LINES] (-1, 16) = (hi, hp)"
    by (cases "fold (find_step (irq_lines s)) [0..<MAX_IRQ_LINES] (-1, 16)")
  have "find_inv (irq_lines s) MAX_IRQ_LINES (hi, hp)"
    using find_inv_fold [of "irq_lines s" MAX_IRQ_LINES] by (simp add: f)
  with assms have "hi = -1"
    by (auto simp: find_inv_def)
  then show ?thesis
    by (simp add: find_highest_priority_pending_def MAX_PRIORITY_def f)
qed

lemma find_some:
  assumes prio: "\<forall>i<MAX_IRQ_LINES. priority (irq_lines s ! i) \<le> MAX_PRIORITY"
    and ex: "\<exists>i<MAX_IRQ_LINES. irq_eligible (irq_lines s ! i)"
  shows "\<exists>n<MAX_IRQ_LINES. find_highest_priority_pending s = int n
           \<and> irq_eligible (irq_lines s ! n)
           \<and> (\<forall>j<MAX_IRQ_LINES. irq_eligible (irq_lines s ! j) \<longrightarrow>
                 priority (irq_lines s ! n) < priority (irq_lines s ! j)
               \<or> (priority (irq_lines s ! n) = priority (irq_lines s ! j) \<and> n \<le> j))"
proof -
  obtain hi hp where f: "fold (find_step (irq_lines s)) [0..<MAX_IRQ_LINES] (-1, 16) = (hi, hp)"
    by (cases "fold (find_step (irq_lines s)) [0..<MAX_IRQ_LINES] (-1, 16)")
  have inv: "find_inv (irq_lines s) MAX_IRQ_LINES (hi, hp)"
    using find_inv_fold [of "irq_lines s" MAX_IRQ_LINES] by (simp add: f)
  from ex obtain i where i: "i < MAX_IRQ_LINES" "irq_eligible (irq_lines s ! i)" by blast
  with prio have "priority (irq_lines s ! i) \<le> 15" by (simp add: MAX_PRIORITY_def)
  then have "priority (irq_lines s ! i) < 16"
    by (simp add: word_le_nat_alt word_less_nat_alt)
  with inv i have hi: "0 \<le> hi" "nat hi < MAX_IRQ_LINES" "irq_eligible (irq_lines s ! nat hi)"
    "hp = priority (irq_lines s ! nat hi)"
    "\<forall>j<MAX_IRQ_LINES. irq_eligible (irq_lines s ! j) \<longrightarrow>
        hp < priority (irq_lines s ! j) \<or> (hp = priority (irq_lines s ! j) \<and> nat hi \<le> j)"
    by (auto simp: find_inv_def)
  have "find_highest_priority_pending s = int (nat hi)"
    using hi(1) by (simp add: find_highest_priority_pending_def MAX_PRIORITY_def f)
  with hi show ?thesis by blast
qed

section \<open>Dispatch of one interrupt\<close>

text \<open>
  C1.  In a well-formed controller state with the global gate open and at least one eligible
  line (\<open>enabled && pending && !active\<close>), one call of \<^verbatim>\<open>VirtualNVIC_ProcessInterrupts\<close>
  picks an eligible line \<open>n\<close> whose priority value is minimal among the eligible lines and
  which is the lowest-numbered line of that priority.  It clears \<open>pending\<close> and sets \<open>active\<close>
  of line \<open>n\<close> (touching no other line), runs the handler of line \<open>n\<close> once on that state
  (or nothing, when the pointer is \<^verbatim>\<open>NULL\<close>), and clears \<open>active\<close> of line \<open>n\<close> in the state
  the handler returns.
\<close>

theorem ProcessInterrupts_dispatches_most_urgent:
  assumes inv: "nvic_inv s"
    and glob: "global_irq_enabled s \<noteq> 0"
    and ex: "\<exists>i<MAX_IRQ_LINES. irq_eligible (irq_lines s ! i)"
  shows "\<exists>n<MAX_IRQ_LINES.
           irq_eligible (irq_lines s ! n)
         \<and> (\<forall>j<MAX_IRQ_LINES. irq_eligible (irq_lines s ! j) \<longrightarrow>
               priority (irq_lines s ! n) < priority (irq_lines s ! j)
             \<or> (priority (irq_lines s ! n) = priority (irq_lines s ! j) \<and> n \<le> j))
         \<and> (let s1 = irq_update n (\<lambda>l. l\<lparr>pending := 0, active := 1\<rparr>) s;
                s2 = (case handler (irq_lines s ! n) of None \<Rightarrow> s1 | Some h \<Rightarrow> hs h s1)
            in pending (irq_lines s1 ! n) = 0 \<and> active (irq_lines s1 ! n) = 1
             \<and> (\<forall>j<MAX_IRQ_LINES. j \<noteq> n \<longrightarrow> irq_lines s1 ! j = irq_lines s ! j)
             \<and> VirtualNVIC_ProcessInterrupts hs s = irq_update n (\<lambda>l. l\<lparr>active := 0\<rparr>) s2)"
proof -
  from inv ex have init: "nvic_initialized s \<noteq> 0" and len: "length (irq_lines s) = MAX_IRQ_LINES"
    and prio: "\<forall>i<MAX_IRQ_LINES. priority (irq_lines s ! i) \<le> MAX_PRIORITY"
    by (auto simp: nvic_inv_def)
  from find_some [OF prio ex] obtain n where n: "n < MAX_IRQ_LINES"
    "find_highest_priority_pending s = int n" "irq_eligible (irq_lines s ! n)"
    "\<forall>j<MAX_IRQ_LINES. irq_eligible (irq_lines s ! j) \<longrightarrow>
        priority (irq_lines s ! n) < priority (irq_lines s ! j)
      \<or> (priority (irq_lines s ! n) = priority (irq_lines s ! j) \<and> n \<le> j)"
    by blast
  have run: "VirtualNVIC_ProcessInterrupts hs s =
      irq_update n (\<lambda>l. l\<lparr>active := 0\<rparr>)
        (case handler (irq_lines s ! n) of
           None \<Rightarrow> irq_update n (\<lambda>l. l\<lparr>pending := 0, active := 1\<rparr>) s
         | Some h \<Rightarrow> hs h (irq_update n (\<lambda>l. l\<lparr>pending := 0, active := 1\<rparr>) s))"
    using init glob n(1) len
    by (simp add: VirtualNVIC_ProcessInterrupts_def nvic_lazy_init_def n(2) Let_def
        irq_update_def split: option.split)
  have upd: "pending (irq_lines (irq_update n (\<lambda>l. l\<lparr>pending := 0, active := 1\<rparr>) s) ! n) = 0"
    "active (irq_lines (irq_update n (\<lambda>l. l\<lparr>pending := 0, active := 1\<rparr>) s) ! n) = 1"
    "\<forall>j<MAX_IRQ_LINES. j \<noteq> n \<longrightarrow>
       irq_lines (irq_update n (\<lambda>l. l\<lparr>pending := 0, active := 1\<rparr>) s) ! j = irq_lines s ! j"
    using n(1) len by (simp_all add: irq_update_def)
  show ?thesis
    using n(1,3,4) run upd unfolding Let_def by blast
qed

lemmas nvic_api_defs = VirtualNVIC_SetPending_def VirtualNVIC_SetHandler_def
  VirtualNVIC_SetPriority_def VirtualNVIC_EnableIRQ_def nvic_lazy_init_def VirtualNVIC_Init_def
  nvic_inject_error_def irq_update_def MAX_IRQ_LINES_def MAX_PRIORITY_def NVIC_ERROR_NONE_def

lemma nvic_test_fields:
  "length (irq_lines nvic_test_state) = 240"
  "nvic_initialized nvic_test_state = 1"
  "global_irq_enabled nvic_test_state = 1"
  by (simp_all add: nvic_test_state_def nvic_api_defs boot_state_def Let_def)

lemma nvic_test_line:
  "i < 240 \<Longrightarrow> irq_lines nvic_test_state ! i =
     (if i = 23 then \<lparr>enabled = 1, pending = 1, active = 0, priority = 1, handler = Some 1\<rparr>
      else if i = 6 then \<lparr>enabled = 1, pending = 1, active = 0, priority = 2, handler = Some 0\<rparr>
      else init_irq)"
  by (simp add: nvic_test_state_def nvic_api_defs boot_state_def Let_def nth_list_update
      init_irq_def)

theorem ProcessInterrupts_dispatches_most_urgent_witness:
  "global_irq_enabled nvic_test_state \<noteq> 0
   \<and> irq_eligible (irq_lines nvic_test_state ! 6)
   \<and> irq_eligible (irq_lines nvic_test_state ! 23)
   \<and> priority (irq_lines nvic_test_state ! 23) < priority (irq_lines nvic_test_state ! 6)
   \<and> VirtualNVIC_ProcessInterrupts nvic_test_handlers nvic_test_state =
       irq_update 23 (\<lambda>l. l\<lparr>active := 0\<rparr>)
         (nvic_test_handlers 1
            (irq_update 23 (\<lambda>l. l\<lparr>pending := 0, active := 1\<rparr>) nvic_test_state))"
proof -
  have inv: "nvic_inv nvic_test_state"
    by (simp add: nvic_inv_def MAX_IRQ_LINES_def MAX_PRIORITY_def nvic_test_line init_irq_def
        nvic_test_fields)
  have glob: "global_irq_enabled nvic_test_state \<noteq> 0"
    by (simp add: nvic_test_fields)
  have e6: "irq_eligible (irq_lines nvic_test_state ! 6)"
    and e23: "irq_eligible (irq_lines nvic_test_state ! 23)"
    by (simp_all add: nvic_test_line irq_eligible_def)
  have ex: "\<exists>i<MAX_IRQ_LINES. irq_eligible (irq_lines nvic_test_state ! i)"
    using e23 by (intro exI [of _ 23]) (simp add: MAX_IRQ_LINES_def)
  from ProcessInterrupts_dispatches_most_urgent [OF inv glob ex, of nvic_test_handlers]
  obtain n where n: "n < MAX_IRQ_LINES" "irq_eligible (irq_lines nvic_test_state ! n)"
    "\<forall>j<MAX_IRQ_LINES. irq_eligible (irq_lines nvic_test_state ! j) \<longrightarrow>
        priority (irq_lines nvic_test_state ! n) < priority (irq_lines nvic_test_state ! j)
      \<or> (priority (irq_lines nvic_test_state ! n) = priority (irq_lines nvic_test_state ! j)
          \<and> n \<le> j)"
    and run: "VirtualNVIC_ProcessInterrupts nvic_test_handlers nvic_test_state =
       irq_update n (\<lambda>l. l\<lparr>active := 0\<rparr>)
         (case handler (irq_lines nvic_test_state ! n) of
            None \<Rightarrow> irq_update n (\<lambda>l. l\<lparr>pending := 0, active := 1\<rparr>) nvic_test_state
          | Some h \<Rightarrow> nvic_test_handlers h
              (irq_update n (\<lambda>l. l\<lparr>pending := 0, active := 1\<rparr>) nvic_test_state))"
    unfolding Let_def by blast
  from n(1,2) have "n = 6 \<or> n = 23"
    by (auto simp: MAX_IRQ_LINES_def nvic_test_line irq_eligible_def init_irq_def
        split: if_splits)
  moreover have "\<not> priority (irq_lines nvic_test_state ! 23)
       < priority (irq_lines nvic_test_state ! n)"
    using n(3) [rule_format, of 23] e23 by (auto simp: MAX_IRQ_LINES_def)
  ultimately have n23: "n = 23"
    by (auto simp: nvic_test_line)
  show ?thesis
    using glob e6 e23 run unfolding n23 by (simp add: nvic_test_line)
qed

section \<open>Draining all pending interrupts\<close>

lemma repend_fields:
  "length (irq_lines (repend_state k)) = 240"
  "nvic_initialized (repend_state k) = 1"
  "global_irq_enabled (repend_state k) = 1"
  "nvic_error_injection_enabled (repend_state k) = 0"
  by (simp_all add: repend_state_def nvic_api_defs boot_state_def Let_def)

lemma repend_line:
  "i < 240 \<Longrightarrow> irq_lines (repend_state k) ! i =
     (if i = 0 then \<lparr>enabled = 1, pending = 1, active = 0, priority = 15, handler = Some 0\<rparr>
      else init_irq)"
  by (simp add: repend_state_def nvic_api_defs boot_state_def Let_def nth_list_update
      init_irq_def)

lemma repend_find: "find_highest_priority_pending (repend_state k) = 0"
proof -
  have prio: "\<forall>i<MAX_IRQ_LINES. priority (irq_lines (repend_state k) ! i) \<le> MAX_PRIORITY"
    by (simp add: MAX_IRQ_LINES_def MAX_PRIORITY_def repend_line init_irq_def)
  have ex: "\<exists>i<MAX_IRQ_LINES. irq_eligible (irq_lines (repend_state k) ! i)"
    by (intro exI [of _ 0]) (simp add: MAX_IRQ_LINES_def repend_line irq_eligible_def)
  from find_some [OF prio ex] obtain n where n: "n < MAX_IRQ_LINES"
    "find_highest_priority_pending (repend_state k) = int n"
    "irq_eligible (irq_lines (repend_state k) ! n)"
    by blast
  from n(1,3) have "n = 0"
    by (auto simp: MAX_IRQ_LINES_def repend_line irq_eligible_def init_irq_def split: if_splits)
  with n(2) show ?thesis by simp
qed

lemma repend_step:
  "VirtualNVIC_ProcessInterrupts repend_handlers (repend_state k) = repend_state (Suc k)"
  by (simp add: VirtualNVIC_ProcessInterrupts_def repend_find nvic_lazy_init_def repend_fields
      Let_def)
    (simp add: repend_state_def repend_handlers_def nvic_api_defs boot_state_def Let_def
      rand_c_def init_irq_def)

lemma repend_unfold:
  "ProcessAllPending_loop repend_handlers (repend_state k) p =
     (if p + 1 > 100 then (repend_state (Suc k), p + 1)
      else ProcessAllPending_loop repend_handlers (repend_state (Suc k)) (p + 1))"
  by (subst ProcessAllPending_loop.simps) (simp add: repend_find repend_step Let_def)

lemma repend_loop:
  "p \<le> 100 \<Longrightarrow> m = nat (100 - p) \<Longrightarrow>
   ProcessAllPending_loop repend_handlers (repend_state k) p = (repend_state (Suc (k + m)), 101)"
proof (induction m arbitrary: p k)
  case 0
  then have "p = 100" by simp
  then show ?case by (simp add: repend_unfold)
next
  case (Suc m)
  then have "p + 1 \<le> 100" "m = nat (100 - (p + 1))" by simp_all
  from Suc.IH [OF this, of "Suc k"] \<open>p + 1 \<le> 100\<close> show ?case
    by (simp add: repend_unfold [of k p])
qed

text \<open>
  C4.  \<^verbatim>\<open>VirtualNVIC_ProcessAllPending\<close> is to stop after at most 100 dispatch iterations.
  It always returns (the loop is a total function, its counter bounds the remaining
  iterations), but the cap is tested after the counter is
  incremented, with \<^verbatim>\<open>processed > 100\<close>: when a handler marks its own line pending on every
  dispatch the loop body runs 101 times, and the handler is invoked 101 times, not 100.
\<close>

theorem ProcessAllPending_runs_101_dispatches:
  "VirtualNVIC_ProcessAllPending repend_handlers (repend_state 0) = (repend_state 101, 101)
   \<and> rand_calls (repend_state 0) = 0 \<and> rand_calls (repend_state 101) = 101"
  using repend_loop [of 0 100 0]
  by (simp add: VirtualNVIC_ProcessAllPending_def nvic_lazy_init_def repend_fields)
    (simp add: repend_state_def)

text \<open>The bound the loop does keep: the counter never passes 101.\<close>

lemma ProcessAllPending_loop_bound:
  "snd (ProcessAllPending_loop hs s p) \<le> max (p + 1) 101"
proof (induction hs s p rule: ProcessAllPending_loop.induct)
  case (1 hs s processed)
  show ?case
  proof (cases "find_highest_priority_pending s \<ge> 0 \<and> \<not> processed + 1 > 100")
    case True
    with 1 [of "VirtualNVIC_ProcessInterrupts hs s" "processed + 1"] show ?thesis
      by (subst ProcessAllPending_loop.simps) (simp add: Let_def)
  next
    case False
    then show ?thesis
      by (subst ProcessAllPending_loop.simps) (auto simp add: Let_def)
  qed
qed

lemma ProcessAllPending_bound: "snd (VirtualNVIC_ProcessAllPending hs s) \<le> 101"
  using ProcessAllPending_loop_bound [of hs "nvic_lazy_init s" 0]
  by (simp add: VirtualNVIC_ProcessAllPending_def)

section \<open>Reading a priority\<close>

text \<open>
  C10, as stated, fails: it says that \<^verbatim>\<open>VirtualNVIC_GetPriority\<close> with an out-of-range line
  number leaves all controller state unchanged.  The function starts with
  \<^verbatim>\<open>if (!nvic_initialized) VirtualNVIC_Init();\<close>, so as the first use of the controller,
  here after \<^verbatim>\<open>VirtualNVIC_DisableGlobalIRQ()\<close>, \<^verbatim>\<open>VirtualNVIC_GetPriority(250)\<close> returns 15
  but sets \<^verbatim>\<open>nvic_initialized\<close>, rewrites every line (priority 0 becomes 15) and reopens the
  global gate.
\<close>

theorem GetPriority_first_use_initialises:
  "unat (250 :: u8) \<ge> 240
   \<and> fst (VirtualNVIC_GetPriority 250 first_use_gate_closed) = 15
   \<and> nvic_initialized first_use_gate_closed = 0
   \<and> nvic_initialized (snd (VirtualNVIC_GetPriority 250 first_use_gate_closed)) = 1
   \<and> global_irq_enabled first_use_gate_closed = 0
   \<and> global_irq_enabled (snd (VirtualNVIC_GetPriority 250 first_use_gate_closed)) = 1
   \<and> priority (irq_lines first_use_gate_closed ! 6) = 0
   \<and> priority (irq_lines (snd (VirtualNVIC_GetPriority 250 first_use_gate_closed)) ! 6) = 15
   \<and> snd (VirtualNVIC_GetPriority 250 first_use_gate_closed) \<noteq> first_use_gate_closed"
proof -
  have a: "nvic_initialized first_use_gate_closed = 0"
    "nvic_initialized (snd (VirtualNVIC_GetPriority 250 first_use_gate_closed)) = 1"
    by (simp_all add: first_use_gate_closed_def VirtualNVIC_DisableGlobalIRQ_def boot_state_def
        VirtualNVIC_GetPriority_def nvic_lazy_init_def VirtualNVIC_Init_def MAX_IRQ_LINES_def Let_def)
  then have ne: "snd (VirtualNVIC_GetPriority 250 first_use_gate_closed) \<noteq> first_use_gate_closed"
    by auto
  show ?thesis
    using a ne
    by (simp add: first_use_gate_closed_def VirtualNVIC_DisableGlobalIRQ_def boot_state_def
        VirtualNVIC_GetPriority_def nvic_lazy_init_def VirtualNVIC_Init_def MAX_IRQ_LINES_def
        MAX_PRIORITY_def Let_def zero_irq_def init_irq_def)
qed

text \<open>
  C10, amended.  For an out-of-range line number (\<open>irq_num \<ge> 240\<close>)
  \<^verbatim>\<open>VirtualNVIC_GetPriority\<close> returns 15 and signals no error (\<^verbatim>\<open>last_error\<close> is never
  written); once the controller is initialised it leaves all controller state unchanged, and
  on first use its only effect is the lazy initialisation that every entry point performs.
\<close>

theorem GetPriority_out_of_range:
  assumes "unat irq_num \<ge> 240"
  shows "fst (VirtualNVIC_GetPriority irq_num s) = 15
       \<and> snd (VirtualNVIC_GetPriority irq_num s) = nvic_lazy_init s
       \<and> (nvic_initialized s \<noteq> 0 \<longrightarrow> snd (VirtualNVIC_GetPriority irq_num s) = s)
       \<and> nvic_last_error (snd (VirtualNVIC_GetPriority irq_num s)) = nvic_last_error s"
  using assms
  by (simp add: VirtualNVIC_GetPriority_def MAX_IRQ_LINES_def MAX_PRIORITY_def
      nvic_lazy_init_def VirtualNVIC_Init_def Let_def)

theorem GetPriority_out_of_range_witness:
  "unat (250 :: u8) \<ge> 240
   \<and> nvic_initialized nvic_test_state \<noteq> 0
   \<and> VirtualNVIC_GetPriority 250 nvic_test_state = (15, nvic_test_state)"
proof -
  have a: "unat (250 :: u8) \<ge> 240" by simp
  have i: "nvic_initialized nvic_test_state \<noteq> 0" by (simp add: nvic_test_fields)
  from GetPriority_out_of_range [OF a, of nvic_test_state] i a show ?thesis
    by (simp add: prod_eq_iff nvic_lazy_init_def)
qed

section \<open>The adapter's priority encoding\<close>

lemma uint_less_iff_unat: "uint (w::'a::len word) < int n \<longleftrightarrow> unat w < n"
  by (simp only: uint_nat of_nat_less_iff)

lemma combined_bound:
  assumes "unat (pre::u32) < 64"
  shows "unat (push_bit 2 pre OR (sub AND 3)) < 256"
proof -
  have "unat pre * unat (4::u32) < 2 ^ LENGTH(32)" using assms by simp
  then have "unat (pre * 4) = unat pre * unat (4::u32)"
    by (simp only: unat_mult_lem)
  with assms have "unat (pre * 4) < 256" by simp
  moreover have "push_bit 2 pre = pre * 4" by (simp add: push_bit_eq_mult)
  ultimately have "unat (push_bit 2 pre) < 256" by (simp only:)
  then have "uint (push_bit 2 pre) < int 256"
    by (simp only: uint_less_iff_unat)
  then have a: "uint (push_bit 2 pre) < 2 ^ 8" by simp
  have "sub AND 3 \<le> 3" by (rule word_and_le1)
  then have b: "uint (sub AND 3) < 2 ^ 8"
    by (simp add: word_le_def)
  have "uint (push_bit 2 pre) OR uint (sub AND 3) < 2 ^ 8"
    by (rule OR_upper) (use a b in simp_all)
  then have "uint (push_bit 2 pre OR (sub AND 3)) < int 256"
    by (simp only: uint_or) simp
  then show ?thesis by (simp only: uint_less_iff_unat)
qed

lemma clamp_u8:
  assumes "unat (x::u32) < 256"
  shows "(if (ucast x :: u8) > 15 then 15 else ucast x) = (of_nat (min 15 (unat x)) :: u8)"
proof -
  have "unat (ucast x :: u8) = take_bit 8 (unat x)"
    by (simp add: unsigned_ucast_eq)
  with assms have u: "unat (ucast x :: u8) = unat x"
    by (simp add: take_bit_nat_eq_self)
  show ?thesis
  proof (cases "unat x > 15")
    case True
    then have "(ucast x :: u8) > 15" by (simp add: word_less_nat_alt u)
    with True show ?thesis by (simp add: min_def)
  next
    case False
    then have "\<not> (ucast x :: u8) > 15" by (simp add: word_less_nat_alt u)
    with False show ?thesis by (simp add: min_def)
  qed
qed

text \<open>
  C7, as stated, fails: the adapter masks the sub-priority with \<open>0x3\<close> before combining, so
  \<open>sub = 4\<close> with \<open>preempt = 0\<close> yields priority 0, where \<open>(preempt << 2) | sub\<close> clamped to 15
  is 4.
\<close>

theorem HAL_NVIC_SetPriority_masks_sub:
  "claimed_priority 0 4 = 4
   \<and> priority (irq_lines (snd (VirtualNVIC_SetPriority 6 (claimed_priority 0 4) nvic_test_state)) ! 6) = 4
   \<and> priority (irq_lines (HAL_NVIC_SetPriority 6 0 4 nvic_test_state) ! 6) = 0
   \<and> HAL_NVIC_SetPriority 6 0 4 nvic_test_state
       \<noteq> snd (VirtualNVIC_SetPriority 6 (claimed_priority 0 4) nvic_test_state)"
proof -
  have c: "claimed_priority 0 4 = 4" by (simp add: claimed_priority_def)
  have a: "priority (irq_lines (snd (VirtualNVIC_SetPriority 6 4 nvic_test_state)) ! 6) = 4"
    by (simp add: nvic_test_state_def nvic_api_defs boot_state_def Let_def)
  have b: "priority (irq_lines (HAL_NVIC_SetPriority 6 0 4 nvic_test_state) ! 6) = 0"
    by (simp add: HAL_NVIC_SetPriority_def nvic_test_state_def nvic_api_defs boot_state_def Let_def)
  from a b have "HAL_NVIC_SetPriority 6 0 4 nvic_test_state
       \<noteq> snd (VirtualNVIC_SetPriority 6 4 nvic_test_state)"
    by auto
  with a b c show ?thesis by simp
qed

text \<open>
  C7, amended.  For every line number, every sub-priority and every preemption priority
  below 64, \<^verbatim>\<open>HAL_NVIC_SetPriority\<close> passes \<open>min 15 ((preempt << 2) | (sub & 3))\<close> to
  \<^verbatim>\<open>VirtualNVIC_SetPriority\<close> and does nothing else.
\<close>

theorem HAL_NVIC_SetPriority_combines:
  assumes "unat preempt < 64"
  shows "HAL_NVIC_SetPriority irq_num preempt sub s =
     snd (VirtualNVIC_SetPriority irq_num
            (of_nat (min 15 (unat (push_bit 2 preempt OR (sub AND 3))))) s)"
  using clamp_u8 [OF combined_bound [OF assms, of sub]]
  by (simp add: HAL_NVIC_SetPriority_def Let_def)

theorem HAL_NVIC_SetPriority_combines_witness:
  "unat (5 :: u32) < 64
   \<and> HAL_NVIC_SetPriority 6 5 2 nvic_test_state = snd (VirtualNVIC_SetPriority 6 15 nvic_test_state)
   \<and> HAL_NVIC_SetPriority 6 2 1 nvic_test_state = snd (VirtualNVIC_SetPriority 6 9 nvic_test_state)"
proof -
  have a: "unat (5 :: u32) < 64" and b: "unat (2 :: u32) < 64" by simp_all
  from HAL_NVIC_SetPriority_combines [OF a, of 6 2 nvic_test_state]
    HAL_NVIC_SetPriority_combines [OF b, of 6 1 nvic_test_state]
  show ?thesis by simp
qed

text \<open>From \<open>preempt = 64\<close> on the combined value no longer fits the \<^verbatim>\<open>uint8_t\<close> it is stored
  in before the clamp is applied, and the clamp sees the truncated value.\<close>

lemma HAL_NVIC_SetPriority_wraps:
  "priority (irq_lines (HAL_NVIC_SetPriority 6 64 0 nvic_test_state) ! 6) = 0"
  by (simp add: HAL_NVIC_SetPriority_def nvic_test_state_def nvic_api_defs boot_state_def Let_def)

section \<open>Pin table basics\<close>

lemma init_pin_zero: "init_pin = zero_pin"
  by (simp add: init_pin_def zero_pin_def GPIO_MODE_INPUT_def GPIO_OTYPE_PP_def
      GPIO_SPEED_LOW_def GPIO_PUPD_NONE_def)

lemma gpio_inv_boot: "gpio_inv (boot_state r)"
  by (simp add: gpio_inv_def boot_state_def zero_pin_def)

lemma gpio_lazy_init_initialized [simp]: "gpio_initialized (gpio_lazy_init s) \<noteq> 0"
  by (simp add: gpio_lazy_init_def VirtualGPIO_Init_def)

lemma gpio_lazy_init_idem: "gpio_initialized s \<noteq> 0 \<Longrightarrow> gpio_lazy_init s = s"
  by (simp add: gpio_lazy_init_def)

lemma gpio_inv_lazy_init: "gpio_inv s \<Longrightarrow> gpio_inv (gpio_lazy_init s)"
  by (simp add: gpio_inv_def gpio_lazy_init_def VirtualGPIO_Init_def init_pin_def)

lemma pin_at_lazy_init:
  "gpio_inv s \<Longrightarrow> unat port < MAX_GPIO_PORTS \<Longrightarrow> unat pin < MAX_GPIO_PINS \<Longrightarrow>
   pin_at (gpio_lazy_init s) port pin = pin_at s port pin"
  by (simp add: gpio_inv_def gpio_lazy_init_def VirtualGPIO_Init_def pin_at_def init_pin_zero)

lemma nth_list_update_any:
  "xs[i := x] ! j = (if i = j \<and> i < length xs then x else xs ! j)"
  by (cases "i < length xs") (simp_all add: nth_list_update list_update_beyond)

lemma pin_at_pin_update:
  "pin_at (pin_update port' pin' f s) port pin =
     (if unat port' = unat port \<and> unat pin' = unat pin \<and> unat port < length (gpio_ports s)
         \<and> unat pin < length (pins (gpio_ports s ! unat port))
      then f (pin_at s port pin) else pin_at s port pin)"
  by (simp add: pin_at_def pin_update_def nth_list_update_any)

lemma pin_at_last_error [simp]: "pin_at (s\<lparr>gpio_last_error := e\<rparr>) port pin = pin_at s port pin"
  by (simp add: pin_at_def)

lemma pin_at_rand_calls [simp]: "pin_at (s\<lparr>rand_calls := e\<rparr>) port pin = pin_at s port pin"
  by (simp add: pin_at_def)

lemma gpio_initialized_pin_update [simp]:
  "gpio_initialized (pin_update port pin f s) = gpio_initialized s"
  by (simp add: pin_update_def)

lemma gpio_inv_shape:
  "gpio_inv s \<Longrightarrow> unat port < MAX_GPIO_PORTS \<Longrightarrow> unat pin < MAX_GPIO_PINS \<Longrightarrow>
   unat port < length (gpio_ports s) \<and> unat pin < length (pins (gpio_ports s ! unat port))"
  by (simp add: gpio_inv_def)

lemma u8_le_1: "(v::u8) \<le> 1 \<Longrightarrow> v = 0 \<or> v = 1"
  by (auto simp: word_le_less_eq)

lemma gpio_inv_last_error [simp]: "gpio_inv (s\<lparr>gpio_last_error := e\<rparr>) = gpio_inv s"
  by (simp add: gpio_inv_def)

lemma gpio_inv_rand_calls [simp]: "gpio_inv (s\<lparr>rand_calls := e\<rparr>) = gpio_inv s"
  by (simp add: gpio_inv_def)

lemma gpio_inv_pin_update:
  assumes "gpio_inv s" "gpio_initialized s \<noteq> 0" "pin_value (f (pin_at s port pin)) \<le> 1"
  shows "gpio_inv (pin_update port pin f s)"
  using assms
  by (auto simp: gpio_inv_def pin_update_def pin_at_def nth_list_update_any)

lemma gpio_inject_error_frame [simp]:
  "gpio_ports (snd (gpio_inject_error s)) = gpio_ports s"
  "gpio_initialized (snd (gpio_inject_error s)) = gpio_initialized s"
  "pin_at (snd (gpio_inject_error s)) port pin = pin_at s port pin"
  "irq_lines (snd (gpio_inject_error s)) = irq_lines s"
  by (simp_all add: gpio_inject_error_def rand_c_def pin_at_def split: prod.splits)

lemma gpio_inv_inject_error [simp]: "gpio_inv (snd (gpio_inject_error s)) = gpio_inv s"
  by (simp add: gpio_inv_def)

lemma gpio_lazy_init_lazy [simp]: "gpio_lazy_init (gpio_lazy_init s) = gpio_lazy_init s"
  by (simp add: gpio_lazy_init_idem)

lemma pins_clock_update [simp]:
  "pins (xs[i := (xs ! i)\<lparr>clock_enabled := c\<rparr>] ! j) = pins (xs ! j)"
  by (simp add: nth_list_update_any)

lemma pin_at_injection_flag [simp]:
  "pin_at (s\<lparr>gpio_error_injection_enabled := e\<rparr>) port pin = pin_at s port pin"
  by (simp add: pin_at_def)

section \<open>The pin table invariant is preserved\<close>

lemma gpio_inv_pin_value:
  "gpio_inv s \<Longrightarrow> unat port < MAX_GPIO_PORTS \<Longrightarrow> unat pin < MAX_GPIO_PINS \<Longrightarrow>
   pin_value (pin_at s port pin) \<le> 1"
  by (simp add: gpio_inv_def pin_at_def)

lemma gpio_inv_mutate:
  assumes "gpio_inv s" "gpio_initialized s \<noteq> 0"
    and "unat port < MAX_GPIO_PORTS" "unat pin < MAX_GPIO_PINS"
    and "\<And>p. pin_value p \<le> 1 \<Longrightarrow> pin_value (f p) \<le> 1"
  shows "gpio_inv (pin_update port pin f s)"
  using assms gpio_inv_pin_value [of s port pin] by (intro gpio_inv_pin_update) simp_all

lemma rand_bit_le_1: "(of_nat (r mod 2) :: u8) \<le> 1"
  by (cases "even r") (simp_all add: mod_2_eq_odd)

lemma gpio_inv_Init: "gpio_inv s \<Longrightarrow> gpio_inv (VirtualGPIO_Init s)"
  by (simp add: gpio_inv_def VirtualGPIO_Init_def init_pin_def)

lemma gpio_inv_SetErrorInjection:
  "gpio_inv s \<Longrightarrow> gpio_inv (VirtualGPIO_SetErrorInjection en s)"
  by (simp add: gpio_inv_def VirtualGPIO_SetErrorInjection_def)

lemma gpio_inv_EnableClock: "gpio_inv s \<Longrightarrow> gpio_inv (snd (VirtualGPIO_EnableClock port s))"
  using gpio_inv_lazy_init [of s] gpio_lazy_init_initialized [of s]
  by (auto simp: VirtualGPIO_EnableClock_def Let_def split_beta gpio_inv_def
      nth_list_update_any)

lemma gpio_inv_ConfigurePin:
  "gpio_inv s \<Longrightarrow> gpio_inv (snd (VirtualGPIO_ConfigurePin port pin md ot sp pd s))"
  using gpio_inv_lazy_init [of s]
  by (simp add: VirtualGPIO_ConfigurePin_def Let_def split_beta gpio_inv_mutate)

lemma gpio_inv_SetAltFunction:
  "gpio_inv s \<Longrightarrow> gpio_inv (snd (VirtualGPIO_SetAltFunction port pin af s))"
  using gpio_inv_lazy_init [of s]
  by (simp add: VirtualGPIO_SetAltFunction_def Let_def split_beta gpio_inv_mutate)

lemma gpio_inv_WritePin:
  "gpio_inv s \<Longrightarrow> gpio_inv (snd (VirtualGPIO_WritePin port pin v s))"
  using gpio_inv_lazy_init [of s]
  by (simp add: VirtualGPIO_WritePin_def Let_def split_beta gpio_inv_mutate)

lemma gpio_inv_ReadPin:
  "gpio_inv s \<Longrightarrow> gpio_inv (snd (snd (VirtualGPIO_ReadPin port pin s)))"
  using gpio_inv_lazy_init [of s]
  by (simp add: VirtualGPIO_ReadPin_def Let_def split_beta gpio_inv_mutate rand_c_def
      rand_bit_le_1)

lemma gpio_inv_TogglePin:
  "gpio_inv s \<Longrightarrow> gpio_inv (snd (VirtualGPIO_TogglePin port pin s))"
  using gpio_inv_lazy_init [of s]
  by (simp add: VirtualGPIO_TogglePin_def Let_def split_beta gpio_inv_mutate)

lemma gpio_inv_ConfigureInterrupt:
  "gpio_inv s \<Longrightarrow> gpio_inv (snd (VirtualGPIO_ConfigureInterrupt port pin md h s))"
  using gpio_inv_lazy_init [of s]
  by (simp add: VirtualGPIO_ConfigureInterrupt_def Let_def split_beta gpio_inv_mutate)

text \<open>Hence the invariant holds after every program of API calls started in the initial
  state, provided the handlers it runs keep it (as handlers built from API calls do).\<close>

lemma gpio_inv_SimulateInterrupt:
  assumes "gpio_inv s" and "\<And>h p n s'. gpio_inv s' \<Longrightarrow> gpio_inv (hs h p n s')"
  shows "gpio_inv (VirtualGPIO_SimulateInterrupt hs port pin edge s)"
  using gpio_inv_lazy_init [OF assms(1)] assms(2)
  by (simp add: VirtualGPIO_SimulateInterrupt_def Let_def split: option.split)

lemma gpio_inv_call:
  assumes "gpio_inv s" and "\<And>h p n s'. gpio_inv s' \<Longrightarrow> gpio_inv (hs h p n s')"
  shows "gpio_inv (gpio_call_run hs c s)"
  using assms
  by (cases c)
    (simp_all add: gpio_inv_Init gpio_inv_SetErrorInjection gpio_inv_EnableClock
      gpio_inv_ConfigurePin gpio_inv_SetAltFunction gpio_inv_WritePin gpio_inv_ReadPin
      gpio_inv_TogglePin gpio_inv_ConfigureInterrupt gpio_inv_SimulateInterrupt)

lemma gpio_inv_reachable:
  assumes "\<And>h p n s'. gpio_inv s' \<Longrightarrow> gpio_inv (hs h p n s')"
  shows "gpio_inv (fold (gpio_call_run hs) calls (boot_state r))"
proof -
  have "gpio_inv s \<Longrightarrow> gpio_inv (fold (gpio_call_run hs) calls s)" for s
    by (induction calls arbitrary: s) (simp_all add: gpio_inv_call assms)
  then show ?thesis by (simp add: gpio_inv_boot)
qed

lemmas gpio_api_defs = VirtualGPIO_EnableClock_def VirtualGPIO_ConfigurePin_def
  VirtualGPIO_WritePin_def VirtualGPIO_TogglePin_def VirtualGPIO_ConfigureInterrupt_def
  VirtualGPIO_SetAltFunction_def VirtualGPIO_SimulateInterrupt_def
  gpio_lazy_init_def VirtualGPIO_Init_def gpio_inject_error_def
  pin_update_def pin_at_def MAX_GPIO_PORTS_def MAX_GPIO_PINS_def

lemma gpio_inv_test_state: "gpio_inv gpio_test_state"
  unfolding gpio_test_state_def
  by (intro gpio_inv_WritePin gpio_inv_ConfigurePin gpio_inv_EnableClock gpio_inv_boot)

lemma gpio_test_state_fields:
  "gpio_initialized gpio_test_state = 1"
  "gpio_error_injection_enabled gpio_test_state = 0"
  "pin_value (pin_at gpio_test_state 0 5) = 1"
  "mode (pin_at gpio_test_state 0 5) = GPIO_MODE_OUTPUT"
  by (simp_all add: gpio_test_state_def gpio_api_defs boot_state_def Let_def)

section \<open>Toggling a pin\<close>

lemma TogglePin_step:
  assumes inv: "gpio_inv s"
    and port: "unat port < MAX_GPIO_PORTS" and pin: "unat pin < MAX_GPIO_PINS"
  shows "fst (VirtualGPIO_TogglePin port pin s) = 1"
    and "pin_at (snd (VirtualGPIO_TogglePin port pin s)) port pin =
          (pin_at s port pin)\<lparr>pin_value := (if pin_value (pin_at s port pin) = 0 then 1 else 0)\<rparr>"
    and "gpio_inv (snd (VirtualGPIO_TogglePin port pin s))"
proof -
  have inv0: "gpio_inv (gpio_lazy_init s)" using inv by (rule gpio_inv_lazy_init)
  note sh0 = gpio_inv_shape [OF inv0 port pin]
  note p0 = pin_at_lazy_init [OF inv port pin]
  show "fst (VirtualGPIO_TogglePin port pin s) = 1"
    using port pin by (simp add: VirtualGPIO_TogglePin_def Let_def)
  show "pin_at (snd (VirtualGPIO_TogglePin port pin s)) port pin =
          (pin_at s port pin)\<lparr>pin_value := (if pin_value (pin_at s port pin) = 0 then 1 else 0)\<rparr>"
    using port pin sh0 by (simp add: VirtualGPIO_TogglePin_def Let_def pin_at_pin_update p0)
  show "gpio_inv (snd (VirtualGPIO_TogglePin port pin s))"
    using port pin inv0 by (simp add: VirtualGPIO_TogglePin_def Let_def gpio_inv_pin_update)
qed

text \<open>
  C8.  For every valid port and pin of a well-formed pin table, whatever the pin's mode,
  \<^verbatim>\<open>VirtualGPIO_TogglePin\<close> succeeds, changes the pin's value, and a second call restores
  the pin exactly as it was.
\<close>

theorem TogglePin_self_inverse:
  assumes inv: "gpio_inv s"
    and port: "unat port < MAX_GPIO_PORTS" and pin: "unat pin < MAX_GPIO_PINS"
  shows "fst (VirtualGPIO_TogglePin port pin s) = 1
       \<and> fst (VirtualGPIO_TogglePin port pin (snd (VirtualGPIO_TogglePin port pin s))) = 1
       \<and> pin_value (pin_at (snd (VirtualGPIO_TogglePin port pin s)) port pin)
           \<noteq> pin_value (pin_at s port pin)
       \<and> pin_at (snd (VirtualGPIO_TogglePin port pin
                        (snd (VirtualGPIO_TogglePin port pin s)))) port pin
           = pin_at s port pin"
proof -
  note a = TogglePin_step [OF inv port pin]
  note b = TogglePin_step [OF a(3) port pin]
  have v: "pin_value (pin_at s port pin) = 0 \<or> pin_value (pin_at s port pin) = 1"
    using inv port pin by (intro u8_le_1) (simp add: gpio_inv_def pin_at_def)
  from v show ?thesis
    by (auto simp: a(1,2) b(1,2))
qed

theorem TogglePin_self_inverse_witness:
  "gpio_inv gpio_test_state \<and> unat (0 :: u8) < MAX_GPIO_PORTS \<and> unat (5 :: u8) < MAX_GPIO_PINS
   \<and> pin_value (pin_at gpio_test_state 0 5) = 1
   \<and> fst (VirtualGPIO_TogglePin 0 5 gpio_test_state) = 1
   \<and> pin_value (pin_at (snd (VirtualGPIO_TogglePin 0 5 gpio_test_state)) 0 5) \<noteq> 1
   \<and> pin_at (snd (VirtualGPIO_TogglePin 0 5 (snd (VirtualGPIO_TogglePin 0 5 gpio_test_state)))) 0 5
       = pin_at gpio_test_state 0 5"
proof -
  have p: "unat (0 :: u8) < MAX_GPIO_PORTS" and n: "unat (5 :: u8) < MAX_GPIO_PINS"
    by (simp_all add: MAX_GPIO_PORTS_def MAX_GPIO_PINS_def)
  from TogglePin_self_inverse [OF gpio_inv_test_state p n] gpio_inv_test_state p n
  show ?thesis by (simp add: gpio_test_state_fields)
qed

section \<open>Edge-triggered pin interrupts\<close>

lemma ConfigureInterrupt_success:
  assumes inv: "gpio_inv s"
    and cfg: "VirtualGPIO_ConfigureInterrupt port pin t h s = (1, s')"
  shows "unat port < MAX_GPIO_PORTS" "unat pin < MAX_GPIO_PINS"
    and "gpio_initialized s' \<noteq> 0"
    and "pin_at s' port pin = (pin_at s port pin)\<lparr>mode := t, irq_enabled := 1, irq_handler := h\<rparr>"
proof -
  from cfg show port: "unat port < MAX_GPIO_PORTS" and pin: "unat pin < MAX_GPIO_PINS"
    by (auto simp: VirtualGPIO_ConfigureInterrupt_def Let_def split: if_splits)
  have inv0: "gpio_inv (gpio_lazy_init s)" using inv by (rule gpio_inv_lazy_init)
  note sh0 = gpio_inv_shape [OF inv0 port pin]
  note p0 = pin_at_lazy_init [OF inv port pin]
  from cfg port pin have s': "s' = (pin_update port pin
        (\<lambda>p. p\<lparr>mode := t, irq_enabled := 1, irq_handler := h\<rparr>)
        (snd (gpio_inject_error (gpio_lazy_init s))))\<lparr>gpio_last_error := GPIO_ERROR_NONE\<rparr>"
    by (auto simp: VirtualGPIO_ConfigureInterrupt_def Let_def split_beta split: if_splits)
  show "gpio_initialized s' \<noteq> 0" by (simp add: s')
  show "pin_at s' port pin = (pin_at s port pin)\<lparr>mode := t, irq_enabled := 1, irq_handler := h\<rparr>"
    using sh0 by (simp add: s' pin_at_pin_update p0)
qed

lemma SimulateInterrupt_armed:
  assumes "gpio_initialized s \<noteq> 0"
    and "unat port < MAX_GPIO_PORTS" "unat pin < MAX_GPIO_PINS"
    and "irq_enabled (pin_at s port pin) \<noteq> 0"
    and "irq_handler (pin_at s port pin) = Some h"
    and "mode (pin_at s port pin) = t"
    and "t = GPIO_MODE_IT_RISING \<or> t = GPIO_MODE_IT_FALLING \<or> t = GPIO_MODE_IT_BOTH"
  shows "VirtualGPIO_SimulateInterrupt hs port pin (edge_code e) s =
           (if spec_trigger_matches t e then hs h port pin s else s)"
  using assms
  by (cases e)
    (auto simp: VirtualGPIO_SimulateInterrupt_def Let_def gpio_lazy_init_idem
      spec_trigger_matches_def GPIO_MODE_IT_RISING_def GPIO_MODE_IT_FALLING_def
      GPIO_MODE_IT_BOTH_def)

lemma SimulateInterrupt_inert:
  assumes "gpio_initialized s \<noteq> 0"
    and "irq_handler (pin_at s port pin) = None \<or>
         mode (pin_at s port pin) \<notin> {GPIO_MODE_IT_RISING, GPIO_MODE_IT_FALLING, GPIO_MODE_IT_BOTH}"
  shows "VirtualGPIO_SimulateInterrupt hs port pin edge s = s"
  using assms
  by (auto simp: VirtualGPIO_SimulateInterrupt_def Let_def gpio_lazy_init_idem)

text \<open>
  C3.  After a successful \<^verbatim>\<open>VirtualGPIO_ConfigureInterrupt(port, pin, t, h)\<close> with a trigger
  \<open>t\<close> (rising, falling or both) and a handler \<open>h\<close>, \<^verbatim>\<open>VirtualGPIO_SimulateInterrupt\<close> on
  that pin runs \<open>h\<close> once, with the port and pin as arguments, when the edge matches \<open>t\<close>, and
  returns the state untouched when it does not.  On any pin of an initialised driver that has
  no handler, or whose mode is not an interrupt mode, it returns the state untouched for every
  edge and every handler table.
\<close>

theorem SimulateInterrupt_fires_iff_edge_matches:
  assumes inv: "gpio_inv s"
    and cfg: "VirtualGPIO_ConfigureInterrupt port pin t (Some h) s = (1, s')"
    and trig: "t = GPIO_MODE_IT_RISING \<or> t = GPIO_MODE_IT_FALLING \<or> t = GPIO_MODE_IT_BOTH"
  shows "VirtualGPIO_SimulateInterrupt hs port pin (edge_code e) s' =
           (if spec_trigger_matches t e then hs h port pin s' else s')
       \<and> (\<forall>s2 port2 pin2 edge2.
             gpio_initialized s2 \<noteq> 0 \<and>
             (irq_handler (pin_at s2 port2 pin2) = None \<or>
              mode (pin_at s2 port2 pin2) \<notin>
                {GPIO_MODE_IT_RISING, GPIO_MODE_IT_FALLING, GPIO_MODE_IT_BOTH})
             \<longrightarrow> VirtualGPIO_SimulateInterrupt hs port2 pin2 edge2 s2 = s2)"
proof
  note c = ConfigureInterrupt_success [OF inv cfg]
  show "VirtualGPIO_SimulateInterrupt hs port pin (edge_code e) s' =
           (if spec_trigger_matches t e then hs h port pin s' else s')"
    by (rule SimulateInterrupt_armed [OF c(3) c(1,2) _ _ _ trig]) (simp_all add: c(4))
next
  show "\<forall>s2 port2 pin2 edge2.
             gpio_initialized s2 \<noteq> 0 \<and>
             (irq_handler (pin_at s2 port2 pin2) = None \<or>
              mode (pin_at s2 port2 pin2) \<notin>
                {GPIO_MODE_IT_RISING, GPIO_MODE_IT_FALLING, GPIO_MODE_IT_BOTH})
             \<longrightarrow> VirtualGPIO_SimulateInterrupt hs port2 pin2 edge2 s2 = s2"
    using SimulateInterrupt_inert by blast
qed

lemma gpio_irq_state_cfg:
  "VirtualGPIO_ConfigureInterrupt 2 13 GPIO_MODE_IT_FALLING (Some 0) gpio_test_state
     = (1, gpio_irq_state)"
  by (simp add: gpio_irq_state_def prod_eq_iff)
    (simp add: VirtualGPIO_ConfigureInterrupt_def gpio_lazy_init_def gpio_inject_error_def
      gpio_test_state_fields MAX_GPIO_PORTS_def MAX_GPIO_PINS_def)

theorem SimulateInterrupt_fires_iff_edge_matches_witness:
  "gpio_inv gpio_test_state
   \<and> VirtualGPIO_ConfigureInterrupt 2 13 GPIO_MODE_IT_FALLING (Some 0) gpio_test_state
       = (1, gpio_irq_state)
   \<and> VirtualGPIO_SimulateInterrupt gpio_test_handlers 2 13 (edge_code Rising) gpio_irq_state
       = gpio_irq_state
   \<and> VirtualGPIO_SimulateInterrupt gpio_test_handlers 2 13 (edge_code Falling) gpio_irq_state
       = gpio_test_handlers 0 2 13 gpio_irq_state
   \<and> gpio_test_handlers 0 2 13 gpio_irq_state \<noteq> gpio_irq_state
   \<and> VirtualGPIO_SimulateInterrupt gpio_test_handlers 0 5 (edge_code Falling) gpio_irq_state
       = gpio_irq_state"
proof -
  have t: "GPIO_MODE_IT_FALLING = GPIO_MODE_IT_RISING \<or> GPIO_MODE_IT_FALLING = GPIO_MODE_IT_FALLING
      \<or> GPIO_MODE_IT_FALLING = GPIO_MODE_IT_BOTH" by simp
  note th = SimulateInterrupt_fires_iff_edge_matches [OF gpio_inv_test_state gpio_irq_state_cfg t,
      of gpio_test_handlers]
  have inv': "gpio_inv gpio_irq_state"
    unfolding gpio_irq_state_def by (intro gpio_inv_ConfigureInterrupt gpio_inv_test_state)
  have p: "unat (2 :: u8) < MAX_GPIO_PORTS" and n: "unat (13 :: u8) < MAX_GPIO_PINS"
    by (simp_all add: MAX_GPIO_PORTS_def MAX_GPIO_PINS_def)
  from TogglePin_step(2) [OF inv' p n]
  have "pin_value (pin_at (gpio_test_handlers 0 2 13 gpio_irq_state) 2 13)
          \<noteq> pin_value (pin_at gpio_irq_state 2 13)"
    by (simp add: gpio_test_handlers_def)
  then have neq: "gpio_test_handlers 0 2 13 gpio_irq_state \<noteq> gpio_irq_state" by auto
  have i: "gpio_initialized gpio_irq_state \<noteq> 0"
    using ConfigureInterrupt_success(3) [OF gpio_inv_test_state gpio_irq_state_cfg] .
  have "pin_at gpio_irq_state 0 5 = pin_at gpio_test_state 0 5"
    by (simp add: gpio_irq_state_def VirtualGPIO_ConfigureInterrupt_def Let_def split_beta
        pin_at_pin_update MAX_GPIO_PORTS_def MAX_GPIO_PINS_def gpio_lazy_init_def
        gpio_test_state_fields)
  then have m: "mode (pin_at gpio_irq_state 0 5) \<notin>
      {GPIO_MODE_IT_RISING, GPIO_MODE_IT_FALLING, GPIO_MODE_IT_BOTH}"
    by (simp add: gpio_test_state_fields GPIO_MODE_OUTPUT_def GPIO_MODE_IT_RISING_def
        GPIO_MODE_IT_FALLING_def GPIO_MODE_IT_BOTH_def)
  from th [of Rising] th [of Falling] neq i m gpio_inv_test_state gpio_irq_state_cfg
  show ?thesis
    by (simp add: spec_trigger_matches_def GPIO_MODE_IT_RISING_def
        GPIO_MODE_IT_FALLING_def GPIO_MODE_IT_BOTH_def)
qed

section \<open>Only ConfigureInterrupt arms a pin\<close>

lemma unconfigured_lazy_init:
  assumes "unat port < MAX_GPIO_PORTS" "unat pin < MAX_GPIO_PINS" "irq_unconfigured s port pin"
  shows "irq_enabled (pin_at (gpio_lazy_init s) port pin) = 0"
  using assms
  by (auto simp: irq_unconfigured_def gpio_lazy_init_def VirtualGPIO_Init_def pin_at_def
      init_pin_def)

lemma unconfiguredI:
  "irq_enabled (pin_at s port pin) = 0 \<Longrightarrow> irq_unconfigured s port pin"
  by (simp add: irq_unconfigured_def)

lemma irq_enabled_pin_update_other:
  assumes "\<And>p. irq_enabled (f p) = irq_enabled p"
  shows "irq_enabled (pin_at (pin_update port' pin' f s) port pin) = irq_enabled (pin_at s port pin)"
  by (simp add: pin_at_pin_update assms)

lemma unconfigured_call:
  assumes port: "unat port < MAX_GPIO_PORTS" and pin: "unat pin < MAX_GPIO_PINS"
    and un: "irq_unconfigured s port pin"
    and nc: "\<not> configures_interrupt_on port pin c"
    and hs: "\<forall>h p n s'. irq_unconfigured s' port pin \<longrightarrow> irq_unconfigured (hs h p n s') port pin"
  shows "irq_unconfigured (gpio_call_run hs c s) port pin"
proof -
  note z = unconfigured_lazy_init [OF port pin un]
  have lz: "irq_unconfigured (gpio_lazy_init s) port pin" using z by (rule unconfiguredI)
  show ?thesis
  proof (cases c)
    case Call_Init
    with un port pin show ?thesis
      by (auto simp: irq_unconfigured_def VirtualGPIO_Init_def pin_at_def init_pin_def)
  next
    case (Call_SetErrorInjection en)
    with un show ?thesis
      by (simp add: irq_unconfigured_def VirtualGPIO_SetErrorInjection_def)
  next
    case (Call_EnableClock p)
    with z show ?thesis
      by (intro unconfiguredI)
        (simp add: VirtualGPIO_EnableClock_def Let_def split_beta pin_at_def)
  next
    case (Call_ConfigurePin p n md ot sp pd)
    with z show ?thesis
      by (intro unconfiguredI)
        (simp add: VirtualGPIO_ConfigurePin_def Let_def split_beta irq_enabled_pin_update_other)
  next
    case (Call_SetAltFunction p n af)
    with z show ?thesis
      by (intro unconfiguredI)
        (simp add: VirtualGPIO_SetAltFunction_def Let_def split_beta irq_enabled_pin_update_other)
  next
    case (Call_WritePin p n v)
    with z show ?thesis
      by (intro unconfiguredI)
        (simp add: VirtualGPIO_WritePin_def Let_def split_beta irq_enabled_pin_update_other)
  next
    case (Call_ReadPin p n)
    with z show ?thesis
      by (intro unconfiguredI)
        (simp add: VirtualGPIO_ReadPin_def Let_def split_beta irq_enabled_pin_update_other
          rand_c_def)
  next
    case (Call_TogglePin p n)
    with z show ?thesis
      by (intro unconfiguredI)
        (simp add: VirtualGPIO_TogglePin_def Let_def split_beta irq_enabled_pin_update_other)
  next
    case (Call_ConfigureInterrupt p n md h)
    with nc have "p \<noteq> port \<or> n \<noteq> pin" by simp
    then have "unat p \<noteq> unat port \<or> unat n \<noteq> unat pin"
      by (auto simp: word_unat_eq_iff)
    with Call_ConfigureInterrupt z show ?thesis
      by (intro unconfiguredI)
        (auto simp add: VirtualGPIO_ConfigureInterrupt_def Let_def split_beta pin_at_pin_update)
  next
    case (Call_SimulateInterrupt p n ed)
    with lz hs show ?thesis
      by (auto simp: VirtualGPIO_SimulateInterrupt_def Let_def split: option.splits)
  qed
qed

lemma unconfigured_calls:
  assumes port: "unat port < MAX_GPIO_PORTS" and pin: "unat pin < MAX_GPIO_PINS"
    and hs: "\<forall>h p n s'. irq_unconfigured s' port pin \<longrightarrow> irq_unconfigured (hs h p n s') port pin"
  shows "irq_unconfigured s port pin \<Longrightarrow> \<forall>c\<in>set calls. \<not> configures_interrupt_on port pin c \<Longrightarrow>
         irq_unconfigured (fold (gpio_call_run hs) calls s) port pin"
proof (induction calls arbitrary: s)
  case Nil
  then show ?case by simp
next
  case (Cons c calls)
  from Cons.prems have "irq_unconfigured (gpio_call_run hs c s) port pin"
    by (intro unconfigured_call [OF port pin _ _ hs]) simp_all
  with Cons show ?case by simp
qed

text \<open>
  C9.  Start from the program's initial state and run any sequence of API calls in which
  \<^verbatim>\<open>VirtualGPIO_ConfigureInterrupt\<close> is never applied to \<open>(port, pin)\<close>; handlers that run on
  the way may do anything that leaves that pin unarmed.  Then the pin is still unarmed, and
  \<^verbatim>\<open>VirtualGPIO_SimulateInterrupt\<close> on it invokes no handler, for every edge and every
  handler table: it returns the state as the lazy initialisation leaves it.  In particular
  \<^verbatim>\<open>VirtualGPIO_ConfigurePin\<close> with an interrupt mode does not arm the pin.
\<close>

theorem SimulateInterrupt_needs_ConfigureInterrupt:
  assumes port: "unat port < MAX_GPIO_PORTS" and pin: "unat pin < MAX_GPIO_PINS"
    and nc: "\<forall>c\<in>set calls. \<not> configures_interrupt_on port pin c"
    and hs: "\<forall>h p n s'. irq_unconfigured s' port pin \<longrightarrow> irq_unconfigured (hs h p n s') port pin"
  shows "irq_unconfigured (fold (gpio_call_run hs) calls (boot_state r)) port pin
       \<and> VirtualGPIO_SimulateInterrupt hs' port pin edge (fold (gpio_call_run hs) calls (boot_state r))
           = gpio_lazy_init (fold (gpio_call_run hs) calls (boot_state r))"
proof -
  have "irq_unconfigured (boot_state r) port pin"
    by (simp add: irq_unconfigured_def boot_state_def)
  from unconfigured_calls [OF port pin hs this nc]
  have un: "irq_unconfigured (fold (gpio_call_run hs) calls (boot_state r)) port pin" .
  from unconfigured_lazy_init [OF port pin un] un show ?thesis
    by (simp add: VirtualGPIO_SimulateInterrupt_def Let_def)
qed

lemma unconfigured_test_handlers:
  assumes port: "unat port < MAX_GPIO_PORTS" and pin: "unat pin < MAX_GPIO_PINS"
  shows "\<forall>h p n s'. irq_unconfigured s' port pin \<longrightarrow>
           irq_unconfigured (gpio_test_handlers h p n s') port pin"
proof (intro allI impI)
  fix h p n s'
  assume un: "irq_unconfigured s' port pin"
  have "irq_unconfigured (gpio_call_run (\<lambda>h p n s. s) (Call_TogglePin p n) s') port pin"
    by (rule unconfigured_call [OF port pin un]) simp_all
  then show "irq_unconfigured (gpio_test_handlers h p n s') port pin"
    by (simp add: gpio_test_handlers_def)
qed

theorem SimulateInterrupt_needs_ConfigureInterrupt_witness:
  "mode (pin_at (fold (gpio_call_run gpio_test_handlers) unconfigured_calls_example
                   (boot_state (\<lambda>k. 0))) 2 13) = GPIO_MODE_IT_RISING
   \<and> VirtualGPIO_SimulateInterrupt gpio_test_handlers 2 13 1
        (fold (gpio_call_run gpio_test_handlers) unconfigured_calls_example (boot_state (\<lambda>k. 0)))
      = fold (gpio_call_run gpio_test_handlers) unconfigured_calls_example (boot_state (\<lambda>k. 0))"
proof -
  have p: "unat (2 :: u8) < MAX_GPIO_PORTS" and n: "unat (13 :: u8) < MAX_GPIO_PINS"
    by (simp_all add: MAX_GPIO_PORTS_def MAX_GPIO_PINS_def)
  have nc: "\<forall>c\<in>set unconfigured_calls_example. \<not> configures_interrupt_on 2 13 c"
    by (simp add: unconfigured_calls_example_def)
  note th = SimulateInterrupt_needs_ConfigureInterrupt
      [OF p n nc unconfigured_test_handlers [OF p n], of "\<lambda>k. 0" gpio_test_handlers 1]
  have i: "gpio_initialized (fold (gpio_call_run gpio_test_handlers) unconfigured_calls_example
                   (boot_state (\<lambda>k. 0))) \<noteq> 0"
    by (simp add: unconfigured_calls_example_def VirtualGPIO_SimulateInterrupt_def Let_def
        split: option.split)
      (simp add: gpio_test_handlers_def VirtualGPIO_TogglePin_def Let_def)
  have m: "mode (pin_at (fold (gpio_call_run gpio_test_handlers) unconfigured_calls_example
                   (boot_state (\<lambda>k. 0))) 2 13) = GPIO_MODE_IT_RISING"
    by (simp add: unconfigured_calls_example_def gpio_test_handlers_def gpio_api_defs
        boot_state_def Let_def init_pin_def GPIO_MODE_IT_RISING_def)
  from th i m show ?thesis by (simp add: gpio_lazy_init_idem)
qed

section \<open>Fault injection\<close>

lemma nvic_inject_error_frame [simp]:
  "irq_lines (snd (nvic_inject_error s)) = irq_lines s"
  "nvic_initialized (snd (nvic_inject_error s)) = nvic_initialized s"
  "gpio_ports (snd (nvic_inject_error s)) = gpio_ports s"
  by (simp_all add: nvic_inject_error_def rand_c_def split: prod.splits)

lemma gpio_inject_error_lazy [simp]:
  "fst (gpio_inject_error (gpio_lazy_init s)) = fst (gpio_inject_error s)"
  by (simp add: gpio_inject_error_def gpio_lazy_init_def VirtualGPIO_Init_def rand_c_def)

lemma nvic_inject_error_lazy [simp]:
  "fst (nvic_inject_error (nvic_lazy_init s)) = fst (nvic_inject_error s)"
  by (simp add: nvic_inject_error_def nvic_lazy_init_def VirtualNVIC_Init_def rand_c_def)

lemma gpio_ports_last_error [simp]: "gpio_ports (s\<lparr>gpio_last_error := e\<rparr>) = gpio_ports s"
  by simp

text \<open>
  C5, as stated, fails: it says that in every state a call rejected by the fault-injection
  roll leaves the targeted line unchanged, validation and roll coming before any mutation.
  Every entry point runs the lazy initialisation before it validates and rolls.  With
  \<^verbatim>\<open>VirtualNVIC_SetErrorInjection(1)\<close> called before the first use of the controller and a
  rejecting roll, \<^verbatim>\<open>VirtualNVIC_SetPriority(6, 2)\<close> returns 0 and the priority of line 6 has
  changed from 0 to 15.
\<close>

theorem rejected_first_use_call_initialises_lines:
  "fst (nvic_inject_error first_use_fault_state) \<noteq> 0
   \<and> fst (VirtualNVIC_SetPriority 6 2 first_use_fault_state) = 0
   \<and> priority (irq_lines first_use_fault_state ! 6) = 0
   \<and> priority (irq_lines (snd (VirtualNVIC_SetPriority 6 2 first_use_fault_state)) ! 6) = 15
   \<and> irq_lines (snd (VirtualNVIC_SetPriority 6 2 first_use_fault_state))
       \<noteq> irq_lines first_use_fault_state"
proof -
  have a: "priority (irq_lines first_use_fault_state ! 6) = 0"
    "priority (irq_lines (snd (VirtualNVIC_SetPriority 6 2 first_use_fault_state)) ! 6) = 15"
    by (simp_all add: first_use_fault_state_def VirtualNVIC_SetErrorInjection_def boot_state_def
        VirtualNVIC_SetPriority_def nvic_lazy_init_def VirtualNVIC_Init_def MAX_IRQ_LINES_def
        MAX_PRIORITY_def Let_def zero_irq_def init_irq_def nvic_inject_error_def rand_c_def)
  then have ne: "irq_lines (snd (VirtualNVIC_SetPriority 6 2 first_use_fault_state))
       \<noteq> irq_lines first_use_fault_state"
    by auto
  show ?thesis
    using a ne
    by (simp add: first_use_fault_state_def VirtualNVIC_SetErrorInjection_def boot_state_def
        VirtualNVIC_SetPriority_def nvic_lazy_init_def VirtualNVIC_Init_def MAX_IRQ_LINES_def
        MAX_PRIORITY_def Let_def nvic_inject_error_def rand_c_def)
qed

text \<open>\<^verbatim>\<open>if (!nvic_initialized) VirtualNVIC_Init();\<close> does nothing once the controller is
  initialised (as \<open>gpio_lazy_init_idem\<close> for the GPIO driver).\<close>

lemma nvic_lazy_init_idem: "nvic_initialized s \<noteq> 0 \<Longrightarrow> nvic_lazy_init s = s"
  by (simp add: nvic_lazy_init_def)

text \<open>
  C5, amended.  When the fault-injection roll of the GPIO driver rejects (\<^verbatim>\<open>inject_error\<close>
  returns 1), each of its gated operations returns 0 and leaves the pin table as the lazy
  first-use initialisation at the head of the call leaves it, which is the table before the
  call once the driver is initialised; likewise the line table for the gated operations of the
  interrupt controller.  After that initialisation, validation and the roll occur before any
  mutation.  The other mutating operations (\<^verbatim>\<open>TogglePin\<close>,
  \<^verbatim>\<open>DisableIRQ\<close>, \<^verbatim>\<open>SetHandler\<close>, \<^verbatim>\<open>ClearPending\<close>) make no roll and cannot be rejected by it.
\<close>

theorem rejected_call_changes_no_table:
  "(fst (gpio_inject_error s) \<noteq> 0 \<longrightarrow>
      fst (VirtualGPIO_EnableClock port s) = 0
    \<and> gpio_ports (snd (VirtualGPIO_EnableClock port s)) = gpio_ports (gpio_lazy_init s)
    \<and> fst (VirtualGPIO_ConfigurePin port pin md ot sp pd s) = 0
    \<and> gpio_ports (snd (VirtualGPIO_ConfigurePin port pin md ot sp pd s))
        = gpio_ports (gpio_lazy_init s)
    \<and> fst (VirtualGPIO_SetAltFunction port pin af s) = 0
    \<and> gpio_ports (snd (VirtualGPIO_SetAltFunction port pin af s)) = gpio_ports (gpio_lazy_init s)
    \<and> fst (VirtualGPIO_WritePin port pin v s) = 0
    \<and> gpio_ports (snd (VirtualGPIO_WritePin port pin v s)) = gpio_ports (gpio_lazy_init s)
    \<and> fst (VirtualGPIO_ReadPin port pin s) = 0
    \<and> fst (snd (VirtualGPIO_ReadPin port pin s)) = None
    \<and> gpio_ports (snd (snd (VirtualGPIO_ReadPin port pin s))) = gpio_ports (gpio_lazy_init s)
    \<and> fst (VirtualGPIO_ConfigureInterrupt port pin md h s) = 0
    \<and> gpio_ports (snd (VirtualGPIO_ConfigureInterrupt port pin md h s))
        = gpio_ports (gpio_lazy_init s))
 \<and> (fst (nvic_inject_error s) \<noteq> 0 \<longrightarrow>
      fst (VirtualNVIC_EnableIRQ irq_num s) = 0
    \<and> irq_lines (snd (VirtualNVIC_EnableIRQ irq_num s)) = irq_lines (nvic_lazy_init s)
    \<and> fst (VirtualNVIC_SetPriority irq_num prio s) = 0
    \<and> irq_lines (snd (VirtualNVIC_SetPriority irq_num prio s)) = irq_lines (nvic_lazy_init s)
    \<and> fst (VirtualNVIC_SetPending irq_num s) = 0
    \<and> irq_lines (snd (VirtualNVIC_SetPending irq_num s)) = irq_lines (nvic_lazy_init s))"
proof (intro conjI impI)
  assume g: "fst (gpio_inject_error s) \<noteq> 0"
  show "fst (VirtualGPIO_EnableClock port s) = 0"
    and "gpio_ports (snd (VirtualGPIO_EnableClock port s)) = gpio_ports (gpio_lazy_init s)"
    using g by (simp_all add: VirtualGPIO_EnableClock_def Let_def split_beta)
  show "fst (VirtualGPIO_ConfigurePin port pin md ot sp pd s) = 0"
    and "gpio_ports (snd (VirtualGPIO_ConfigurePin port pin md ot sp pd s))
        = gpio_ports (gpio_lazy_init s)"
    using g by (simp_all add: VirtualGPIO_ConfigurePin_def Let_def split_beta)
  show "fst (VirtualGPIO_SetAltFunction port pin af s) = 0"
    and "gpio_ports (snd (VirtualGPIO_SetAltFunction port pin af s)) = gpio_ports (gpio_lazy_init s)"
    using g by (simp_all add: VirtualGPIO_SetAltFunction_def Let_def split_beta)
  show "fst (VirtualGPIO_WritePin port pin v s) = 0"
    and "gpio_ports (snd (VirtualGPIO_WritePin port pin v s)) = gpio_ports (gpio_lazy_init s)"
    using g by (simp_all add: VirtualGPIO_WritePin_def Let_def split_beta)
  show "fst (VirtualGPIO_ReadPin port pin s) = 0"
    and "fst (snd (VirtualGPIO_ReadPin port pin s)) = None"
    and "gpio_ports (snd (snd (VirtualGPIO_ReadPin port pin s))) = gpio_ports (gpio_lazy_init s)"
    using g by (simp_all add: VirtualGPIO_ReadPin_def Let_def split_beta)
  show "fst (VirtualGPIO_ConfigureInterrupt port pin md h s) = 0"
    and "gpio_ports (snd (VirtualGPIO_ConfigureInterrupt port pin md h s))
        = gpio_ports (gpio_lazy_init s)"
    using g by (simp_all add: VirtualGPIO_ConfigureInterrupt_def Let_def split_beta)
next
  assume n: "fst (nvic_inject_error s) \<noteq> 0"
  show "fst (VirtualNVIC_EnableIRQ irq_num s) = 0"
    and "irq_lines (snd (VirtualNVIC_EnableIRQ irq_num s)) = irq_lines (nvic_lazy_init s)"
    using n by (simp_all add: VirtualNVIC_EnableIRQ_def Let_def split_beta)
  show "fst (VirtualNVIC_SetPriority irq_num prio s) = 0"
    and "irq_lines (snd (VirtualNVIC_SetPriority irq_num prio s)) = irq_lines (nvic_lazy_init s)"
    using n by (simp_all add: VirtualNVIC_SetPriority_def Let_def split_beta)
  show "fst (VirtualNVIC_SetPending irq_num s) = 0"
    and "irq_lines (snd (VirtualNVIC_SetPending irq_num s)) = irq_lines (nvic_lazy_init s)"
    using n by (simp_all add: VirtualNVIC_SetPending_def Let_def split_beta)
qed

lemma fault_state_fields:
  "gpio_initialized fault_state = 1" "nvic_initialized fault_state = 1"
  "fst (gpio_inject_error fault_state) = 1" "fst (nvic_inject_error fault_state) = 1"
  by (simp_all add: fault_state_def gpio_fault_state_def VirtualNVIC_SetErrorInjection_def
      VirtualGPIO_SetErrorInjection_def VirtualNVIC_Init_def VirtualGPIO_Init_def boot_state_def
      gpio_inject_error_def nvic_inject_error_def rand_c_def)

theorem rejected_call_changes_no_table_witness:
  "fst (gpio_inject_error fault_state) \<noteq> 0
   \<and> fst (nvic_inject_error fault_state) \<noteq> 0
   \<and> fst (VirtualGPIO_WritePin 0 5 1 fault_state) = 0
   \<and> gpio_ports (snd (VirtualGPIO_WritePin 0 5 1 fault_state)) = gpio_ports fault_state
   \<and> fst (VirtualNVIC_SetPriority 6 2 fault_state) = 0
   \<and> irq_lines (snd (VirtualNVIC_SetPriority 6 2 fault_state)) = irq_lines fault_state"
proof -
  have g: "fst (gpio_inject_error fault_state) \<noteq> 0"
    and n: "fst (nvic_inject_error fault_state) \<noteq> 0"
    by (simp_all add: fault_state_fields)
  have lz: "gpio_lazy_init fault_state = fault_state" "nvic_lazy_init fault_state = fault_state"
    by (simp_all add: gpio_lazy_init_def nvic_lazy_init_def fault_state_fields)
  from rejected_call_changes_no_table [where s = fault_state and port = 0 and pin = 5 and v = 1
      and irq_num = 6 and prio = 2] g n
  show ?thesis by (simp add: lz)
qed

section \<open>Clock gating\<close>

lemma ConfigurePin_clock_gate:
  assumes "clock_enabled (gpio_ports (gpio_lazy_init s) ! unat port) = 0"
  shows "fst (VirtualGPIO_ConfigurePin port pin md ot sp pd s) = 0
       \<and> gpio_ports (snd (VirtualGPIO_ConfigurePin port pin md ot sp pd s))
           = gpio_ports (gpio_lazy_init s)"
  using assms by (simp add: VirtualGPIO_ConfigurePin_def Let_def)

text \<open>
  C2.  No pin operation is to change a pin's configuration while the clock of its port is
  disabled.  \<^verbatim>\<open>VirtualGPIO_ConfigurePin\<close> keeps to this (lemma \<open>ConfigurePin_clock_gate\<close>),
  its two siblings do not.  On a freshly initialised driver no port clock is enabled;
  \<^verbatim>\<open>VirtualGPIO_ConfigurePin\<close> refuses to configure PA9, but \<^verbatim>\<open>VirtualGPIO_SetAltFunction\<close> reports success and changes
  the alternate function of PA9, and \<^verbatim>\<open>VirtualGPIO_ConfigureInterrupt\<close> reports success and
  changes mode and handler of PC13: neither tests \<^verbatim>\<open>clock_enabled\<close>.
\<close>

theorem SetAltFunction_and_ConfigureInterrupt_skip_clock_check:
  "clock_enabled (gpio_ports (VirtualGPIO_Init (boot_state (\<lambda>k. 0))) ! 0) = 0
   \<and> clock_enabled (gpio_ports (VirtualGPIO_Init (boot_state (\<lambda>k. 0))) ! 2) = 0
   \<and> fst (VirtualGPIO_ConfigurePin 0 9 GPIO_MODE_ALTERNATE GPIO_OTYPE_PP GPIO_SPEED_LOW
           GPIO_PUPD_NONE (VirtualGPIO_Init (boot_state (\<lambda>k. 0)))) = 0
   \<and> alt_function (pin_at (VirtualGPIO_Init (boot_state (\<lambda>k. 0))) 0 9) = 0
   \<and> fst (VirtualGPIO_SetAltFunction 0 9 7 (VirtualGPIO_Init (boot_state (\<lambda>k. 0)))) = 1
   \<and> alt_function (pin_at (snd (VirtualGPIO_SetAltFunction 0 9 7 (VirtualGPIO_Init (boot_state (\<lambda>k. 0))))) 0 9) = 7
   \<and> mode (pin_at (VirtualGPIO_Init (boot_state (\<lambda>k. 0))) 2 13) = GPIO_MODE_INPUT
   \<and> fst (VirtualGPIO_ConfigureInterrupt 2 13 GPIO_MODE_IT_RISING (Some 0)
           (VirtualGPIO_Init (boot_state (\<lambda>k. 0)))) = 1
   \<and> mode (pin_at (snd (VirtualGPIO_ConfigureInterrupt 2 13 GPIO_MODE_IT_RISING (Some 0)
           (VirtualGPIO_Init (boot_state (\<lambda>k. 0))))) 2 13) = GPIO_MODE_IT_RISING
   \<and> irq_handler (pin_at (snd (VirtualGPIO_ConfigureInterrupt 2 13 GPIO_MODE_IT_RISING (Some 0)
           (VirtualGPIO_Init (boot_state (\<lambda>k. 0))))) 2 13) = Some 0"
  by (simp add: gpio_api_defs boot_state_def Let_def init_pin_def)

section \<open>Operations outside the fault-injection gate\<close>

lemma TogglePin_ignores_random_source:
  "unat port < MAX_GPIO_PORTS \<Longrightarrow> unat pin < MAX_GPIO_PINS \<Longrightarrow>
   fst (VirtualGPIO_TogglePin port pin s) = 1
   \<and> rand_calls (snd (VirtualGPIO_TogglePin port pin s)) = rand_calls s"
  by (simp add: VirtualGPIO_TogglePin_def Let_def pin_update_def gpio_lazy_init_def
      VirtualGPIO_Init_def)

lemma WritePin_rejected_when_roll_is_zero:
  "fst (VirtualGPIO_WritePin 0 5 1 (gpio_fault_state (\<lambda>k. 0))) = 0"
  by (simp add: gpio_fault_state_def VirtualGPIO_SetErrorInjection_def gpio_api_defs
      boot_state_def Let_def rand_c_def)

text \<open>
  C6.  With error injection enabled every mutating call of the GPIO driver is to be subject
  to the probability gate, so that some outcome of the random source rejects it.  The gated
  operations are (an all-zero random source rejects \<^verbatim>\<open>VirtualGPIO_WritePin\<close>, lemma
  \<open>WritePin_rejected_when_roll_is_zero\<close>), but \<^verbatim>\<open>VirtualGPIO_TogglePin\<close> is not: with
  error injection enabled it succeeds on PA5 and flips the pin for every random source, and consumes no random number: the function never calls
  \<^verbatim>\<open>inject_error\<close>, so no outcome of the random source rejects it.
\<close>

theorem TogglePin_is_never_rejected:
  "\<forall>r. gpio_error_injection_enabled (gpio_fault_state r) \<noteq> 0
      \<and> pin_value (pin_at (gpio_fault_state r) 0 5) = 0
      \<and> fst (VirtualGPIO_TogglePin 0 5 (gpio_fault_state r)) = 1
      \<and> pin_value (pin_at (snd (VirtualGPIO_TogglePin 0 5 (gpio_fault_state r))) 0 5) = 1
      \<and> rand_calls (snd (VirtualGPIO_TogglePin 0 5 (gpio_fault_state r)))
          = rand_calls (gpio_fault_state r)"
  by (simp add: gpio_fault_state_def VirtualGPIO_SetErrorInjection_def gpio_api_defs
      boot_state_def Let_def init_pin_def)

section \<open>The line table invariant is preserved\<close>

lemma nvic_inv_boot: "nvic_inv (boot_state r)"
  by (simp add: nvic_inv_def boot_state_def zero_irq_def irq_eligible_def MAX_IRQ_LINES_def)

lemma nvic_lazy_init_initialized [simp]: "nvic_initialized (nvic_lazy_init s) \<noteq> 0"
  by (simp add: nvic_lazy_init_def VirtualNVIC_Init_def)

lemma nvic_inv_Init: "nvic_inv s \<Longrightarrow> nvic_inv (VirtualNVIC_Init s)"
  by (simp add: nvic_inv_def VirtualNVIC_Init_def init_irq_def MAX_PRIORITY_def)

lemma nvic_inv_lazy_init: "nvic_inv s \<Longrightarrow> nvic_inv (nvic_lazy_init s)"
  by (simp add: nvic_lazy_init_def nvic_inv_Init)

lemma nvic_inv_last_error [simp]: "nvic_inv (s\<lparr>nvic_last_error := e\<rparr>) = nvic_inv s"
  by (simp add: nvic_inv_def)

lemma nvic_inv_inject_error [simp]: "nvic_inv (snd (nvic_inject_error s)) = nvic_inv s"
  by (simp add: nvic_inv_def)

lemma nvic_inv_irq_update:
  assumes "nvic_inv s" "nvic_initialized s \<noteq> 0"
    and "\<And>l. priority l \<le> MAX_PRIORITY \<Longrightarrow> priority (f l) \<le> MAX_PRIORITY"
  shows "nvic_inv (irq_update n f s)"
  using assms by (auto simp: nvic_inv_def irq_update_def nth_list_update_any)

lemma nvic_inv_EnableIRQ: "nvic_inv s \<Longrightarrow> nvic_inv (snd (VirtualNVIC_EnableIRQ irq_num s))"
  using nvic_inv_lazy_init [of s]
  by (simp add: VirtualNVIC_EnableIRQ_def Let_def split_beta nvic_inv_irq_update)

lemma nvic_inv_DisableIRQ: "nvic_inv s \<Longrightarrow> nvic_inv (snd (VirtualNVIC_DisableIRQ irq_num s))"
  using nvic_inv_lazy_init [of s]
  by (simp add: VirtualNVIC_DisableIRQ_def Let_def split_beta nvic_inv_irq_update)

lemma nvic_inv_SetPriority:
  "nvic_inv s \<Longrightarrow> nvic_inv (snd (VirtualNVIC_SetPriority irq_num prio s))"
  using nvic_inv_lazy_init [of s]
  by (simp add: VirtualNVIC_SetPriority_def Let_def split_beta nvic_inv_irq_update not_less)

lemma nvic_inv_SetHandler:
  "nvic_inv s \<Longrightarrow> nvic_inv (snd (VirtualNVIC_SetHandler irq_num h s))"
  using nvic_inv_lazy_init [of s]
  by (simp add: VirtualNVIC_SetHandler_def Let_def split_beta nvic_inv_irq_update)

lemma nvic_inv_SetPending:
  "nvic_inv s \<Longrightarrow> nvic_inv (snd (VirtualNVIC_SetPending irq_num s))"
  using nvic_inv_lazy_init [of s]
  by (simp add: VirtualNVIC_SetPending_def Let_def split_beta nvic_inv_irq_update)

lemma nvic_inv_ClearPending:
  "nvic_inv s \<Longrightarrow> nvic_inv (snd (VirtualNVIC_ClearPending irq_num s))"
  using nvic_inv_lazy_init [of s]
  by (simp add: VirtualNVIC_ClearPending_def Let_def split_beta nvic_inv_irq_update)

lemma nvic_inv_global:
  "nvic_inv s \<Longrightarrow> nvic_inv (VirtualNVIC_EnableGlobalIRQ s)"
  "nvic_inv s \<Longrightarrow> nvic_inv (VirtualNVIC_DisableGlobalIRQ s)"
  by (simp_all add: nvic_inv_def VirtualNVIC_EnableGlobalIRQ_def VirtualNVIC_DisableGlobalIRQ_def)

lemma nvic_inv_ProcessInterrupts:
  assumes inv: "nvic_inv s"
    and hs: "\<And>h s'. nvic_inv s' \<Longrightarrow> nvic_initialized s' \<noteq> 0 \<Longrightarrow>
               nvic_inv (hs h s') \<and> nvic_initialized (hs h s') \<noteq> 0"
  shows "nvic_inv (VirtualNVIC_ProcessInterrupts hs s)"
proof -
  let ?s = "nvic_lazy_init s"
  let ?s1 = "irq_update (nat (find_highest_priority_pending ?s))
               (\<lambda>l. l\<lparr>pending := 0, active := 1\<rparr>) ?s"
  have inv0: "nvic_inv ?s" using inv by (rule nvic_inv_lazy_init)
  have inv1: "nvic_inv ?s1" "nvic_initialized ?s1 \<noteq> 0"
    using inv0 by (simp_all add: nvic_inv_irq_update) (simp add: irq_update_def)
  have step: "nvic_inv (irq_update n (\<lambda>l. l\<lparr>active := 0\<rparr>) s')"
    if "nvic_inv s'" "nvic_initialized s' \<noteq> 0" for n s'
    using that by (simp add: nvic_inv_irq_update)
  show ?thesis
    using inv0 inv1 hs [OF inv1]
    by (auto simp: VirtualNVIC_ProcessInterrupts_def Let_def intro!: step split: option.split)
qed

end
